theory Spec2Isabelle
  imports Complex_Main "HOL-Library.Multiset"
begin

section \<open>JavaScript values\<close>

text \<open>
  A text is the sequence of its UTF-16 code units, as in the language: \<open>length\<close>
  counts code units, \<open>trim\<close> and \<open>===\<close> look at code units. A text within ASCII is
  written \<open>ascii ''...''\<close>.

  The fields of a transaction are dynamically typed: \<open>validate()\<close> inspects
  \<open>typeof\<close>, \<open>isNaN\<close>, \<open>isFinite\<close> and truthiness, so the model keeps the
  primitive values apart (a field holding an object, an array or a function is not
  modelled). A finite number carries its exact value (binary rounding of the
  arithmetic is not modelled).
\<close>

type_synonym jsstring = "nat list"

definition ascii :: "string \<Rightarrow> jsstring" where
  "ascii s = map of_char s"

datatype jsnum = Fin rat | NaN | PosInf | NegInf

datatype jsval = Undefined | Null | Bool bool | Num jsnum | Str jsstring

fun truthy :: "jsval \<Rightarrow> bool" where
  "truthy Undefined = False"
| "truthy Null = False"
| "truthy (Bool b) = b"
| "truthy (Num (Fin x)) = (x \<noteq> 0)"
| "truthy (Num NaN) = False"
| "truthy (Num PosInf) = True"
| "truthy (Num NegInf) = True"
| "truthy (Str s) = (s \<noteq> [])"

text \<open>\<open>a || b\<close>\<close>

definition or_else :: "jsval \<Rightarrow> jsval \<Rightarrow> jsval" where
  "or_else a b = (if truthy a then a else b)"

text \<open>A parameter with a default value takes the default when \<open>undefined\<close> is passed.\<close>

definition default_param :: "jsval \<Rightarrow> jsval \<Rightarrow> jsval" where
  "default_param d a = (if a = Undefined then d else a)"

text \<open>\<open>a === b\<close> on primitive values.\<close>

definition strict_eq :: "jsval \<Rightarrow> jsval \<Rightarrow> bool" where
  "strict_eq a b = (a = b \<and> a \<noteq> Num NaN)"

fun join :: "jsstring \<Rightarrow> jsstring list \<Rightarrow> jsstring" where
  "join sep [] = []"
| "join sep [x] = x"
| "join sep (x # y # ys) = x @ sep @ join sep (y # ys)"

section \<open>Dates (utils/dateUtils.js)\<close>

text \<open>
  A \<open>Date\<close> object is an instant in milliseconds since the epoch, or Invalid Date.
  A date text is kept by what \<open>new Date(text)\<close> makes of it:
  \<^item> \<open>Iso n\<close> is the text \<open>YYYY-MM-DD\<close> of calendar day \<open>n\<close> (days since the
    epoch); the platform reads a date-only ISO text as midnight UTC of that day;
  \<^item> \<open>Rolled s n\<close> is a text \<open>s\<close> of the shape \<open>YYYY-MM-DD\<close> that names no
    calendar day (\<open>2024-02-30\<close>) and that the platform nevertheless reads, as
    midnight UTC of day \<open>n\<close>;
  \<^item> \<open>Parsed t\<close> is any other text the platform can read, denoting the instant \<open>t\<close>;
  \<^item> \<open>Garbled s\<close> is a text \<open>s\<close> that gives Invalid Date (the empty text included).

  A value passed where a date is expected is \<open>undefined\<close>, a text or a \<open>Date\<close>
  object.

  The getters \<open>getFullYear/getMonth/getDate\<close> and \<open>setHours(0,0,0,0)\<close> work in local
  time; \<open>tz\<close> is the offset of local time from UTC in milliseconds (constant: daylight
  saving changes are not modelled). The instants are those of the years 1000 to 9999
  of local time, whose year the getters print with four digits: for them the text
  \<open>formatDateISO\<close> builds from the getters is the ISO text of the local day.
\<close>

datatype datetext = Iso int | Rolled jsstring int | Parsed int | Garbled jsstring

type_synonym jsdate = "int option"

datatype datearg = DUndefined | DText datetext | DObj jsdate

definition DAY :: int where
  "DAY = 86400000"

fun newDate :: "datetext \<Rightarrow> jsdate" where
  "newDate (Iso n) = Some (n * DAY)"
| "newDate (Rolled s n) = Some (n * DAY)"
| "newDate (Parsed t) = Some t"
| "newDate (Garbled s) = None"

text \<open>\<open>new Date(x)\<close> for \<open>undefined\<close>, a text or a Date object.\<close>

fun newDateOf :: "datearg \<Rightarrow> jsdate" where
  "newDateOf DUndefined = None"
| "newDateOf (DText s) = newDate s"
| "newDateOf (DObj d) = d"

definition localDay :: "int \<Rightarrow> int \<Rightarrow> int" where
  "localDay tz t = (t + tz) div DAY"

text \<open>\<open>d.setHours(0, 0, 0, 0)\<close>: local midnight of the local day of \<open>t\<close>.\<close>

definition setHours0 :: "int \<Rightarrow> int \<Rightarrow> int" where
  "setHours0 tz t = localDay tz t * DAY - tz"

fun text_truthy :: "datetext \<Rightarrow> bool" where
  "text_truthy (Garbled s) = (s \<noteq> [])"
| "text_truthy d = True"

text \<open>The test for the shape \<open>YYYY-MM-DD\<close>, made on a text that gives a valid date.\<close>

fun iso_shaped :: "datetext \<Rightarrow> bool" where
  "iso_shaped (Iso n) = True"
| "iso_shaped (Rolled s n) = True"
| "iso_shaped d = False"

fun formatDateISO :: "int \<Rightarrow> datearg \<Rightarrow> datetext" where
  "formatDateISO tz (DText s) =
     (case newDate s of
        None \<Rightarrow> Garbled []
      | Some t \<Rightarrow> if iso_shaped s then s else Iso (localDay tz t))"
| "formatDateISO tz (DObj None) = Garbled []"
| "formatDateISO tz (DObj (Some t)) = Iso (localDay tz t)"
| "formatDateISO tz DUndefined = Garbled []"

text \<open>
  \<open>isDateInRange(date, startDate, endDate)\<close>. A falsy bound (\<open>undefined\<close> or the
  empty text) and a bound that is an invalid date are skipped.
\<close>

fun bound_truthy :: "datearg \<Rightarrow> bool" where
  "bound_truthy DUndefined = False"
| "bound_truthy (DText s) = text_truthy s"
| "bound_truthy (DObj d) = True"

definition bound_instant :: "datearg \<Rightarrow> jsdate" where
  "bound_instant b = (if bound_truthy b then newDateOf b else None)"

definition isDateInRange :: "int \<Rightarrow> datearg \<Rightarrow> datearg \<Rightarrow> datearg \<Rightarrow> bool" where
  "isDateInRange tz date startDate endDate =
     (case newDateOf date of
        None \<Rightarrow> False
      | Some c \<Rightarrow>
          (let checkDate = setHours0 tz c in
           if (case bound_instant startDate of
                 None \<Rightarrow> False | Some s \<Rightarrow> checkDate < setHours0 tz s)
           then False
           else if (case bound_instant endDate of
                      None \<Rightarrow> False | Some e \<Rightarrow> checkDate > setHours0 tz e)
           then False
           else True))"

section \<open>Configuration (config/constants.js)\<close>

definition EXPENSE_CATEGORIES :: "jsstring list" where
  "EXPENSE_CATEGORIES =
     map ascii [''Food'', ''Transport'', ''Utilities'', ''Entertainment'', ''Healthcare'',
                ''Shopping'', ''Education'', ''Other'']"

definition INCOME_SOURCES :: "jsstring list" where
  "INCOME_SOURCES =
     map ascii [''Salary'', ''Freelance'', ''Investment'', ''Gift'', ''Business'', ''Other'']"

text \<open>The currency symbols outside ASCII, each a single code unit.\<close>

definition euro_sign :: jsstring where
  "euro_sign = [0x20AC]"

definition pound_sign :: jsstring where
  "pound_sign = [0xA3]"

definition rupee_sign :: jsstring where
  "rupee_sign = [0x20B9]"

definition yen_sign :: jsstring where
  "yen_sign = [0xA5]"

text \<open>\<open>CURRENCY_OPTIONS\<close> as (symbol, code) pairs; the names are display text only.\<close>

definition CURRENCY_OPTIONS :: "(jsstring \<times> jsstring) list" where
  "CURRENCY_OPTIONS =
     [(ascii ''$'', ascii ''USD''), (euro_sign, ascii ''EUR''), (pound_sign, ascii ''GBP''),
      (rupee_sign, ascii ''INR''), (yen_sign, ascii ''JPY''), (yen_sign, ascii ''CNY''),
      (ascii ''C$'', ascii ''CAD''), (ascii ''A$'', ascii ''AUD''), (ascii ''Fr'', ascii ''CHF''),
      (ascii ''R$'', ascii ''BRL'')]"

section \<open>The domain model (models/Transaction.js, Expense.js, Income.js)\<close>

text \<open>
  \<open>createdAt\<close> is the ISO text of an instant, kept as the instant, or \<open>undefined\<close>
  (\<open>None\<close>: \<open>fromJSON\<close> copies whatever the serialized item has). The discriminant
  \<open>type\<close> of an Expense (Income) is the constant \<open>'expense'\<close> (\<open>'income'\<close>); it
  appears in the serialized item.
\<close>

record transaction =
  ident :: jsval
  amount :: jsval
  date :: datetext
  description :: jsval
  currency :: jsval
  createdAt :: "nat option"

record expense = transaction +
  category :: jsval

record income = transaction +
  source :: jsval

text \<open>
  An object of the arrays \<open>expenses\<close> and \<open>income\<close>, seen through the members the
  program reads; a member the object lacks reads as \<open>undefined\<close> (\<open>None\<close> for the
  date and for \<open>createdAt\<close>). The date member, when present, is a text.
\<close>

record item =
  j_id :: jsval
  j_amount :: jsval
  j_date :: "datetext option"
  j_description :: jsval
  j_currency :: jsval
  j_createdAt :: "nat option"
  j_category :: jsval
  j_source :: jsval
  j_type :: jsval

text \<open>The date member as an argument of \<open>new Date\<close> or of the constructor.\<close>

fun date_member :: "datetext option \<Rightarrow> datearg" where
  "date_member None = DUndefined"
| "date_member (Some d) = DText d"

record validation =
  isValid :: bool
  errors :: "jsstring list"

text \<open>
  The constructor: \<open>now\<close> is the clock read by \<open>new Date()\<close>, \<open>uuid\<close> the value
  \<open>uuidv4()\<close> returns; \<open>tid\<close> is the \<open>id\<close> argument (\<open>id || uuidv4()\<close>).
\<close>

definition new_Transaction ::
  "int \<Rightarrow> nat \<Rightarrow> jsstring \<Rightarrow> jsval \<Rightarrow> datearg \<Rightarrow> jsval \<Rightarrow> jsval \<Rightarrow> jsval \<Rightarrow> transaction" where
  "new_Transaction tz now uuid amt dt descr cur tid =
     \<lparr>ident = or_else (default_param Null tid) (Str uuid),
      amount = amt,
      date = formatDateISO tz dt,
      description = default_param (Str []) descr,
      currency = default_param (Str (ascii ''$'')) cur,
      createdAt = Some now\<rparr>"

definition new_Expense ::
  "int \<Rightarrow> nat \<Rightarrow> jsstring \<Rightarrow> jsval \<Rightarrow> datearg \<Rightarrow> jsval \<Rightarrow> jsval \<Rightarrow> jsval \<Rightarrow> jsval \<Rightarrow> expense" where
  "new_Expense tz now uuid amt dt cat descr cur tid =
     transaction.extend (new_Transaction tz now uuid amt dt descr cur tid)
       (expense.fields cat)"

definition new_Income ::
  "int \<Rightarrow> nat \<Rightarrow> jsstring \<Rightarrow> jsval \<Rightarrow> datearg \<Rightarrow> jsval \<Rightarrow> jsval \<Rightarrow> jsval \<Rightarrow> jsval \<Rightarrow> income" where
  "new_Income tz now uuid amt dt src descr cur tid =
     transaction.extend (new_Transaction tz now uuid amt dt descr cur tid)
       (income.fields src)"

definition Expense_toJSON :: "expense \<Rightarrow> item" where
  "Expense_toJSON e =
     \<lparr>j_id = ident e, j_amount = amount e, j_date = Some (date e),
      j_description = description e, j_currency = currency e,
      j_createdAt = createdAt e, j_category = category e, j_source = Undefined,
      j_type = Str (ascii ''expense'')\<rparr>"




fun amount_errors :: "jsval \<Rightarrow> jsstring list" where
  "amount_errors (Num NaN) = [ascii ''Amount cannot be NaN'']"
| "amount_errors (Num PosInf) = [ascii ''Amount must be finite'']"
| "amount_errors (Num NegInf) = [ascii ''Amount must be finite'']"
| "amount_errors (Num (Fin x)) =
     (if x \<le> 0 then [ascii ''Amount must be a positive number''] else [])"
| "amount_errors v = [ascii ''Amount must be a number'']"

fun date_errors :: "datetext \<Rightarrow> jsstring list" where
  "date_errors d =
     (if \<not> text_truthy d then [ascii ''Date is required'']
      else (case newDate d of
              None \<Rightarrow> [ascii ''Date must be a valid date'']
            | Some t \<Rightarrow> []))"

fun description_type_errors :: "jsval \<Rightarrow> jsstring list" where
  "description_type_errors Undefined = []"
| "description_type_errors Null = []"
| "description_type_errors (Str s) = []"
| "description_type_errors v = [ascii ''Description must be a string'']"

text \<open>
  \<open>this.description && this.description.length > 500\<close>: only a text has a length
  (\<open>undefined > 500\<close> is false), and the length is the number of code units.
\<close>

fun description_length_errors :: "jsval \<Rightarrow> jsstring list" where
  "description_length_errors (Str s) =
     (if s \<noteq> [] \<and> length s > 500
      then [ascii ''Description is too long (max 500 characters)'']
      else [])"
| "description_length_errors v = []"

definition Transaction_validate :: "'a transaction_scheme \<Rightarrow> validation" where
  "Transaction_validate t =
     (let errs = amount_errors (amount t) @ date_errors (date t)
                 @ description_type_errors (description t)
                 @ description_length_errors (description t)
      in \<lparr>isValid = (errs = []), errors = errs\<rparr>)"

definition category_errors :: "jsval \<Rightarrow> jsstring list" where
  "category_errors c =
     (if \<not> truthy c then [ascii ''Category is required'']
      else (case c of
              Str s \<Rightarrow>
                if s \<in> set EXPENSE_CATEGORIES then []
                else [ascii ''Invalid category. Must be one of: ''
                      @ join (ascii '', '') EXPENSE_CATEGORIES]
            | _ \<Rightarrow> [ascii ''Category must be a string'']))"

definition source_errors :: "jsval \<Rightarrow> jsstring list" where
  "source_errors c =
     (if \<not> truthy c then [ascii ''Source is required'']
      else (case c of
              Str s \<Rightarrow>
                if s \<in> set INCOME_SOURCES then []
                else [ascii ''Invalid source. Must be one of: ''
                      @ join (ascii '', '') INCOME_SOURCES]
            | _ \<Rightarrow> [ascii ''Source must be a string'']))"

definition Expense_validate :: "expense \<Rightarrow> validation" where
  "Expense_validate e =
     (let errs = errors (Transaction_validate e) @ category_errors (category e)
      in \<lparr>isValid = (errs = []), errors = errs\<rparr>)"

definition Income_validate :: "income \<Rightarrow> validation" where
  "Income_validate i =
     (let errs = errors (Transaction_validate i) @ source_errors (source i)
      in \<lparr>isValid = (errs = []), errors = errs\<rparr>)"

section \<open>The exchange rate service (services/ExchangeRateService.js)\<close>

text \<open>
  A rate table is an object from currency codes to numbers, kept by its own
  properties as an association list. Only the \<open>'USD'\<close> row of \<open>STATIC_RATES\<close> is
  ever read.
\<close>

type_synonym rates = "(jsstring \<times> rat) list"

definition CACHE_DURATION :: int where
  "CACHE_DURATION = 24 * 60 * 60 * 1000"

definition STATIC_RATES :: "(jsstring \<times> rates) list" where
  "STATIC_RATES =
     [(ascii ''USD'',
        [(ascii ''EUR'', 92 / 100), (ascii ''GBP'', 79 / 100), (ascii ''INR'', 83),
         (ascii ''JPY'', 148), (ascii ''CNY'', 710 / 100), (ascii ''CAD'', 135 / 100),
         (ascii ''AUD'', 152 / 100), (ascii ''CHF'', 88 / 100), (ascii ''BRL'', 495 / 100),
         (ascii ''USD'', 1)]),
      (ascii ''EUR'',
        [(ascii ''USD'', 109 / 100), (ascii ''GBP'', 86 / 100), (ascii ''INR'', 90),
         (ascii ''JPY'', 161), (ascii ''CNY'', 770 / 100), (ascii ''CAD'', 147 / 100),
         (ascii ''AUD'', 166 / 100), (ascii ''CHF'', 96 / 100), (ascii ''BRL'', 538 / 100),
         (ascii ''EUR'', 1)]),
      (ascii ''GBP'',
        [(ascii ''USD'', 127 / 100), (ascii ''EUR'', 116 / 100), (ascii ''INR'', 105),
         (ascii ''JPY'', 188), (ascii ''CNY'', 9), (ascii ''CAD'', 171 / 100),
         (ascii ''AUD'', 193 / 100), (ascii ''CHF'', 112 / 100), (ascii ''BRL'', 627 / 100),
         (ascii ''GBP'', 1)]),
      (ascii ''INR'',
        [(ascii ''USD'', 12 / 1000), (ascii ''EUR'', 11 / 1000), (ascii ''GBP'', 95 / 10000),
         (ascii ''JPY'', 178 / 100), (ascii ''CNY'', 85 / 1000), (ascii ''CAD'', 16 / 1000),
         (ascii ''AUD'', 18 / 1000), (ascii ''CHF'', 11 / 1000), (ascii ''BRL'', 60 / 1000),
         (ascii ''INR'', 1)]),
      (ascii ''JPY'',
        [(ascii ''USD'', 68 / 10000), (ascii ''EUR'', 62 / 10000), (ascii ''GBP'', 53 / 10000),
         (ascii ''INR'', 56 / 100), (ascii ''CNY'', 48 / 1000), (ascii ''CAD'', 91 / 10000),
         (ascii ''AUD'', 10 / 1000), (ascii ''CHF'', 59 / 10000), (ascii ''BRL'', 33 / 1000),
         (ascii ''JPY'', 1)]),
      (ascii ''CNY'',
        [(ascii ''USD'', 14 / 100), (ascii ''EUR'', 13 / 100), (ascii ''GBP'', 11 / 100),
         (ascii ''INR'', 1170 / 100), (ascii ''JPY'', 2080 / 100), (ascii ''CAD'', 19 / 100),
         (ascii ''AUD'', 21 / 100), (ascii ''CHF'', 12 / 100), (ascii ''BRL'', 70 / 100),
         (ascii ''CNY'', 1)])]"

text \<open>\<open>STATIC_RATES['USD']\<close>\<close>

definition static_usd :: rates where
  "static_usd = (case map_of STATIC_RATES (ascii ''USD'') of Some r \<Rightarrow> r | None \<Rightarrow> [])"

definition SYMBOL_TO_CODE :: "(jsstring \<times> jsstring) list" where
  "SYMBOL_TO_CODE =
     [(ascii ''$'', ascii ''USD''), (euro_sign, ascii ''EUR''), (pound_sign, ascii ''GBP''),
      (rupee_sign, ascii ''INR''), (yen_sign, ascii ''JPY''), (ascii ''C$'', ascii ''CAD''),
      (ascii ''A$'', ascii ''AUD''), (ascii ''Fr'', ascii ''CHF''), (ascii ''R$'', ascii ''BRL'')]"

text \<open>
  \<open>SYMBOL_TO_CODE\<close> is an object literal: a property read finds, besides the nine
  properties of its own, the members it inherits from \<open>Object.prototype\<close>, which are
  functions (the accessor \<open>__proto__\<close> gives \<open>Object.prototype\<close> itself), all truthy.
\<close>

definition OBJECT_PROTOTYPE :: "jsstring list" where
  "OBJECT_PROTOTYPE =
     map ascii [''constructor'', ''__defineGetter__'', ''__defineSetter__'', ''hasOwnProperty'',
                ''__lookupGetter__'', ''__lookupSetter__'', ''isPrototypeOf'',
                ''propertyIsEnumerable'', ''toString'', ''valueOf'', ''__proto__'',
                ''toLocaleString'']"

text \<open>
  What \<open>getCodeFromSymbol\<close> returns: a text, or the member of \<open>Object.prototype\<close> of
  the given name. Two members are the same object exactly when their names are the
  same, and no member is \<open>===\<close> to a text.
\<close>

datatype code = CodeText jsstring | Inherited jsstring

record cache =
  c_rates :: "rates option"
  c_baseCurrency :: "jsstring option"
  c_timestamp :: "int option"

definition empty_cache :: cache where
  "empty_cache = \<lparr>c_rates = None, c_baseCurrency = None, c_timestamp = None\<rparr>"

text \<open>\<open>SYMBOL_TO_CODE[symbol] || symbol\<close>\<close>

definition getCodeFromSymbol :: "jsstring \<Rightarrow> code" where
  "getCodeFromSymbol symbol =
     (case map_of SYMBOL_TO_CODE symbol of
        Some c \<Rightarrow> if c = [] then CodeText symbol else CodeText c
      | None \<Rightarrow> if symbol \<in> set OBJECT_PROTOTYPE then Inherited symbol else CodeText symbol)"

text \<open>
  The property key \<open>rates[code]\<close> reads: the text itself, or the text the runtime
  gives for an inherited member, which is the source text of a native function,
  \<open>function toString() { [native code] }\<close> (the constructor is named \<open>Object\<close>), and
  \<open>[object Object]\<close> for \<open>Object.prototype\<close>.
\<close>

definition property_key :: "code \<Rightarrow> jsstring" where
  "property_key c =
     (case c of
        CodeText s \<Rightarrow> s
      | Inherited m \<Rightarrow>
          if m = ascii ''__proto__'' then ascii ''[object Object]''
          else ascii ''function ''
               @ (if m = ascii ''constructor'' then ascii ''Object'' else m)
               @ ascii ''() { [native code] }'')"

text \<open>The outcome of the HTTP request: a failure (network error, non-2xx status,
  unreadable body) or a body, whose \<open>rates\<close> member may be missing.\<close>

datatype fetch_result = FetchFailed | FetchedBody "rates option"

definition fetchRates :: "cache \<Rightarrow> int \<Rightarrow> fetch_result \<Rightarrow> rates option \<times> cache" where
  "fetchRates c now resp =
     (case resp of
        FetchFailed \<Rightarrow> (None, c)
      | FetchedBody r \<Rightarrow>
          (r, \<lparr>c_rates = r, c_baseCurrency = Some (ascii ''USD''), c_timestamp = Some now\<rparr>))"

definition getCachedRates :: "cache \<Rightarrow> int \<Rightarrow> jsstring \<Rightarrow> rates option" where
  "getCachedRates c now baseCurrency =
     (case c_timestamp c of
        None \<Rightarrow> None
      | Some ts \<Rightarrow>
          if c_rates c = None \<or> ts = 0 \<or> c_baseCurrency c \<noteq> Some baseCurrency then None
          else if now - ts > CACHE_DURATION then None
          else c_rates c)"

definition getRates :: "cache \<Rightarrow> int \<Rightarrow> fetch_result \<Rightarrow> rates \<times> cache" where
  "getRates c now resp =
     (case getCachedRates c now (ascii ''USD'') of
        Some cached \<Rightarrow> (cached, c)
      | None \<Rightarrow>
          (case fetchRates c now resp of
             (Some fetched, c') \<Rightarrow> (fetched, c')
           | (None, c') \<Rightarrow> (static_usd, c')))"

text \<open>\<open>!rate\<close>: a rate that is missing or zero is falsy.\<close>

fun rate_falsy :: "rat option \<Rightarrow> bool" where
  "rate_falsy None = True"
| "rate_falsy (Some r) = (r = 0)"

text \<open>
  The lines \<open>convert\<close> and \<open>convertStatic\<close> share, once the table is chosen:
  \<open>if (!fromRate || !toRate) return amount; return (amount / fromRate) * toRate\<close>.
  The key read in the table is never the name of an inherited member (lemma
  \<open>property_key_own\<close> below), so the read finds a property of the table's own or
  nothing.
\<close>

definition cross_rate :: "rates \<Rightarrow> rat \<Rightarrow> code \<Rightarrow> code \<Rightarrow> rat" where
  "cross_rate table amt fromCode toCode =
     (let fromRate = map_of table (property_key fromCode);
          toRate = map_of table (property_key toCode)
      in if rate_falsy fromRate \<or> rate_falsy toRate then amt
         else (case (fromRate, toRate) of
                 (Some f, Some t) \<Rightarrow> (amt / f) * t
               | _ \<Rightarrow> amt))"

definition convert ::
  "cache \<Rightarrow> int \<Rightarrow> fetch_result \<Rightarrow> rat \<Rightarrow> jsstring \<Rightarrow> jsstring \<Rightarrow> rat \<times> cache" where
  "convert c now resp amt fromCurrency toCurrency =
     (let fromCode = getCodeFromSymbol fromCurrency;
          toCode = getCodeFromSymbol toCurrency
      in if fromCode = toCode then (amt, c)
         else (case getRates c now resp of
                 (table, c') \<Rightarrow> (cross_rate table amt fromCode toCode, c')))"

definition convertStatic :: "cache \<Rightarrow> rat \<Rightarrow> jsstring \<Rightarrow> jsstring \<Rightarrow> rat" where
  "convertStatic c amt fromCurrency toCurrency =
     (let fromCode = getCodeFromSymbol fromCurrency;
          toCode = getCodeFromSymbol toCurrency
      in if fromCode = toCode then amt
         else (let table = (case c_rates c of Some r \<Rightarrow> r | None \<Rightarrow> static_usd)
               in cross_rate table amt fromCode toCode))"

section \<open>The record store (services/StorageService.js)\<close>

subsection \<open>Documents and files\<close>

text \<open>
  An element of the arrays \<open>expenses\<close> and \<open>income\<close> of a file that parses:
  \<open>null\<close>, an object, or any other value (a number, a text, a boolean, an array), whose
  members \<open>id\<close>, \<open>amount\<close> and the others read as \<open>undefined\<close>. Reading a
  member of \<open>null\<close> throws a TypeError.
\<close>

datatype entry = ENull | EOther | Rec item

definition absent :: item where
  "absent =
     \<lparr>j_id = Undefined, j_amount = Undefined, j_date = None, j_description = Undefined,
      j_currency = Undefined, j_createdAt = None, j_category = Undefined,
      j_source = Undefined, j_type = Undefined\<rparr>"

text \<open>The members of an element, as \<open>{ ...e }\<close> copies them (\<open>{ ...null }\<close> is empty)
  and as a property read finds them on an element other than \<open>null\<close>.\<close>

fun members :: "entry \<Rightarrow> item" where
  "members (Rec x) = x"
| "members e = absent"

text \<open>
  The value \<open>JSON.parse\<close> gives for a file: \<open>null\<close>, an object, or any other value
  (a number, a text, a boolean, an array), all of whose members read as \<open>undefined\<close>.
  Of an object only the three members \<open>readData\<close> looks at are kept, each \<open>None\<close>
  when it is missing or of the wrong type (\<open>expenses\<close>, \<open>income\<close>: not an array;
  \<open>settings\<close>: not a plain object).
\<close>

type_synonym settings = "(jsstring \<times> jsval) list"

datatype jsontop = JNull | JOther | JObject "entry list option" "entry list option" "settings option"

record document =
  expenses :: "entry list"
  income :: "entry list"
  settings :: settings

definition empty_document :: document where
  "empty_document = \<lparr>expenses = [], income = [], settings = []\<rparr>"

definition document_json :: "document \<Rightarrow> jsontop" where
  "document_json d = JObject (Some (expenses d)) (Some (income d)) (Some (settings d))"

text \<open>
  What survives \<open>JSON.stringify\<close> followed by \<open>JSON.parse\<close>: \<open>NaN\<close> and the
  infinities are written as \<open>null\<close>; a member that is \<open>undefined\<close> is left out and
  reads as \<open>undefined\<close> again.
\<close>

fun json_value :: "jsval \<Rightarrow> jsval" where
  "json_value (Num (Fin x)) = Num (Fin x)"
| "json_value (Num n) = Null"
| "json_value v = v"

definition json_item :: "item \<Rightarrow> item" where
  "json_item i =
     \<lparr>j_id = json_value (j_id i), j_amount = json_value (j_amount i), j_date = j_date i,
      j_description = json_value (j_description i), j_currency = json_value (j_currency i),
      j_createdAt = j_createdAt i, j_category = json_value (j_category i),
      j_source = json_value (j_source i), j_type = json_value (j_type i)\<rparr>"

fun json_entry :: "entry \<Rightarrow> entry" where
  "json_entry (Rec i) = Rec (json_item i)"
| "json_entry e = e"

fun json_text :: "jsontop \<Rightarrow> jsontop" where
  "json_text (JObject es is st) =
     JObject (map_option (map json_entry) es) (map_option (map json_entry) is)
       (map_option (map (\<lambda>(k, v). (k, json_value v))) st)"
| "json_text v = v"

text \<open>
  A file is kept by its size in bytes and by what reading it gives: \<open>Json v\<close> for a
  content that \<open>JSON.parse\<close> reads as \<open>v\<close>, \<open>Text s\<close> for the content \<open>s\<close>
  otherwise (a blank content, which \<open>readData\<close> tests for before parsing, or a content
  \<open>JSON.parse\<close> rejects with a SyntaxError).
\<close>

datatype body = Text jsstring | Json jsontop

record disk_file =
  fsize :: nat
  fbody :: body

text \<open>
  A timestamped backup \<open>.backup.<timestamp>.json\<close>: its name (the instant of its
  timestamp), its modification time, its content, whether \<open>statSync\<close> succeeds on it,
  and whether it is locked, that is, can be neither removed nor replaced.
\<close>

record backup =
  b_name :: nat
  b_mtime :: nat
  b_file :: disk_file
  b_statable :: bool
  b_locked :: bool

text \<open>
  The files of the store: the data file, \<open>.tmp\<close>, \<open>.backup\<close>, the timestamped
  backups in the order \<open>readdirSync\<close> lists them, and the copies
  \<open>.corrupted.<timestamp>.bak\<close>. Three flags say which calls succeed: \<open>readable\<close>,
  those that read the data file (\<open>statSync\<close>, \<open>readFileSync\<close>, the source side of
  \<open>copyFileSync\<close>); \<open>writable\<close>, those that change the directory (\<open>writeFileSync\<close>,
  the target side of \<open>copyFileSync\<close>, \<open>renameSync\<close>, \<open>unlinkSync\<close>); \<open>listable\<close>,
  \<open>readdirSync\<close>. \<open>existsSync\<close> never throws.
\<close>

record fs =
  dataFile :: "disk_file option"
  tempFile :: "disk_file option"
  backupFile :: "disk_file option"
  backups :: "backup list"
  corrupted :: "(nat \<times> disk_file) list"
  readable :: bool
  writable :: bool
  listable :: bool

text \<open>
  The platform: the zone offset, and the number of bytes of
  \<open>JSON.stringify(data, null, 2)\<close> in UTF-8.
\<close>

record platform =
  zone :: int
  byteLength :: "jsontop \<Rightarrow> nat"

datatype cause = FileTooLarge | IOFailure | TypeErr | SyntaxErr

text \<open>
  \<open>new Error(`Failed to read data: ${error.message}`)\<close> and its like for writing and
  for the constructor; \<open>TypeError\<close> is the error of the language, thrown where a
  member of \<open>null\<close> is read or a value that is no function is called.
\<close>

datatype error = ReadFailed cause | WriteFailed cause | InitFailed error | TypeError

datatype 'a result = Thrown error | Returned 'a

definition maxSize :: nat where
  "maxSize = 10 * 1024 * 1024"

text \<open>
  The code units \<open>trim\<close> removes: the white space and the line terminators of the
  language (tab, line feed, vertical tab, form feed, carriage return, space, no-break
  space, the byte order mark, line and paragraph separator, and the space separators
  of Unicode).
\<close>

definition is_space :: "nat \<Rightarrow> bool" where
  "is_space u =
     (u \<in> set [0x09, 0x0A, 0x0B, 0x0C, 0x0D, 0x20, 0xA0, 0x1680, 0x2028, 0x2029, 0x202F,
               0x205F, 0x3000, 0xFEFF]
      \<or> (0x2000 \<le> u \<and> u \<le> 0x200A))"

text \<open>\<open>!fileContent.trim()\<close>\<close>

definition blank :: "jsstring \<Rightarrow> bool" where
  "blank s = list_all is_space s"

subsection \<open>Writing\<close>

text \<open>The cleanup of the catch block: remove \<open>.tmp\<close> if it exists, ignoring a failure.\<close>

definition cleanup_temp :: "fs \<Rightarrow> fs" where
  "cleanup_temp s = (if tempFile s \<noteq> None \<and> writable s then s\<lparr>tempFile := None\<rparr> else s)"

text \<open>
  \<open>rotateBackups()\<close>. The listing is stat'ed and sorted newest first by modification
  time (the sort is stable). With three or more backups all but the two newest are
  unlinked, each in a \<open>try\<close> of its own: a backup that cannot be removed is warned
  about and stays. Then the data file is copied to a backup named by the clock,
  replacing a backup of that name (the new entry is listed last: the order of a
  listing is the platform's). Any other failure (the listing, the stat of one listed
  backup, the copy) ends the rotation there, quietly: the method never throws.
\<close>

definition newest_first :: "backup list \<Rightarrow> backup list" where
  "newest_first bs = sort_key (\<lambda>b. - int (b_mtime b)) bs"

text \<open>The listing after \<open>backupFiles.slice(2).forEach(...)\<close>; \<open>w\<close> says whether the
  directory can be changed.\<close>

definition delete_old :: "bool \<Rightarrow> backup list \<Rightarrow> backup list" where
  "delete_old w bs =
     (let backupFiles = newest_first bs
      in if length backupFiles \<ge> 3
         then filter (\<lambda>b. if w \<and> \<not> b_locked b
                          then b_name b \<notin> set (map b_name (drop 2 backupFiles))
                          else True) bs
         else bs)"

definition rotateBackups :: "nat \<Rightarrow> fs \<Rightarrow> fs" where
  "rotateBackups now s =
     (if listable s \<and> list_all b_statable (backups s)
      then (let kept = delete_old (writable s) (backups s)
            in case dataFile s of
                 None \<Rightarrow> s\<lparr>backups := kept\<rparr>
               | Some f \<Rightarrow>
                   if readable s \<and> writable s
                      \<and> list_all (\<lambda>b. if b_name b = now then \<not> b_locked b else True) kept
                   then s\<lparr>backups := filter (\<lambda>b. b_name b \<noteq> now) kept
                                      @ [\<lparr>b_name = now, b_mtime = now, b_file = f,
                                          b_statable = True, b_locked = False\<rparr>]\<rparr>
                   else s\<lparr>backups := kept\<rparr>)
      else s)"

text \<open>
  \<open>writeData(data)\<close>; \<open>now\<close> is the clock. The result is \<open>Thrown\<close> for the error the
  method throws, with the state the files are left in.
\<close>

definition writeData :: "platform \<Rightarrow> nat \<Rightarrow> jsontop \<Rightarrow> fs \<Rightarrow> unit result \<times> fs" where
  "writeData P now data s =
     (if byteLength P data > maxSize then (Thrown (WriteFailed FileTooLarge), cleanup_temp s)
      else if \<not> writable s then (Thrown (WriteFailed IOFailure), s)
      else
        (let s1 = s\<lparr>tempFile := Some \<lparr>fsize = byteLength P data, fbody = Json (json_text data)\<rparr>\<rparr>
         in case dataFile s1 of
              None \<Rightarrow>
                (Returned (), s1\<lparr>dataFile := tempFile s1, tempFile := None, backupFile := None\<rparr>)
            | Some live \<Rightarrow>
                (let s2 = rotateBackups now s1
                 in if \<not> readable s2 then (Thrown (WriteFailed IOFailure), cleanup_temp s2)
                    else (Returned (),
                          s2\<lparr>dataFile := tempFile s2, tempFile := None, backupFile := None\<rparr>))))"

text \<open>\<open>backupCorruptedFile()\<close>: every failure is logged and swallowed.\<close>

definition backupCorruptedFile :: "platform \<Rightarrow> nat \<Rightarrow> fs \<Rightarrow> fs" where
  "backupCorruptedFile P now s =
     (case dataFile s of
        None \<Rightarrow> snd (writeData P now (document_json empty_document) s)
      | Some f \<Rightarrow>
          if readable s \<and> writable s
          then snd (writeData P now (document_json empty_document)
                      (s\<lparr>corrupted := filter (\<lambda>(n, c). n \<noteq> now) (corrupted s) @ [(now, f)]\<rparr>))
          else s)"

subsection \<open>Reading\<close>

text \<open>The body of the \<open>try\<close> block of \<open>readData\<close>: the error thrown, or the data.\<close>

definition parse_data :: "fs \<Rightarrow> cause + document" where
  "parse_data s =
     (case dataFile s of
        None \<Rightarrow> Inl IOFailure
      | Some f \<Rightarrow>
          if \<not> readable s then Inl IOFailure
          else if fsize f > maxSize then Inl FileTooLarge
          else (case fbody f of
                  Text t \<Rightarrow> if blank t then Inr empty_document else Inl SyntaxErr
                | Json JNull \<Rightarrow> Inl TypeErr
                | Json JOther \<Rightarrow> Inr empty_document
                | Json (JObject es is st) \<Rightarrow>
                    Inr \<lparr>expenses = (case es of Some e \<Rightarrow> e | None \<Rightarrow> []),
                         income = (case is of Some i \<Rightarrow> i | None \<Rightarrow> []),
                         settings = (case st of Some t \<Rightarrow> t | None \<Rightarrow> [])\<rparr>))"

definition readData :: "platform \<Rightarrow> nat \<Rightarrow> fs \<Rightarrow> document result \<times> fs" where
  "readData P now s =
     (case parse_data s of
        Inr d \<Rightarrow> (Returned d, s)
      | Inl SyntaxErr \<Rightarrow> (Returned empty_document, backupCorruptedFile P now s)
      | Inl c \<Rightarrow> (Thrown (ReadFailed c), s))"

text \<open>\<open>ensureDataFileExists()\<close>, run by the constructor.\<close>

definition ensureDataFileExists :: "platform \<Rightarrow> nat \<Rightarrow> fs \<Rightarrow> unit result \<times> fs" where
  "ensureDataFileExists P now s =
     (if dataFile s = None
      then (case writeData P now (JObject (Some []) (Some []) None) s of
              (Thrown e, s') \<Rightarrow> (Thrown (InitFailed e), s')
            | (Returned u, s') \<Rightarrow> (Returned u, s'))
      else (Returned (), s))"

subsection \<open>The operations of the store\<close>

definition getSettings :: "platform \<Rightarrow> nat \<Rightarrow> fs \<Rightarrow> settings result \<times> fs" where
  "getSettings P now s =
     (case readData P now s of
        (Thrown e, s') \<Rightarrow> (Thrown e, s')
      | (Returned d, s') \<Rightarrow> (Returned (settings d), s'))"

text \<open>\<open>{ ...data.settings, ...settings }\<close>: the given keys override.\<close>

definition merge_settings :: "settings \<Rightarrow> settings \<Rightarrow> settings" where
  "merge_settings old new = filter (\<lambda>(k, v). k \<notin> set (map fst new)) old @ new"

definition saveSettings :: "platform \<Rightarrow> nat \<Rightarrow> settings \<Rightarrow> fs \<Rightarrow> bool result \<times> fs" where
  "saveSettings P now st s =
     (case readData P now s of
        (Thrown e, s') \<Rightarrow> (Thrown e, s')
      | (Returned d, s') \<Rightarrow>
          (case writeData P now (document_json (d\<lparr>settings := merge_settings (settings d) st\<rparr>)) s' of
             (Thrown e, s'') \<Rightarrow> (Thrown e, s'')
           | (Returned u, s'') \<Rightarrow> (Returned True, s'')))"

definition getExpenses :: "platform \<Rightarrow> nat \<Rightarrow> fs \<Rightarrow> entry list result \<times> fs" where
  "getExpenses P now s =
     (case readData P now s of
        (Thrown e, s') \<Rightarrow> (Thrown e, s')
      | (Returned d, s') \<Rightarrow> (Returned (expenses d), s'))"

definition getIncome :: "platform \<Rightarrow> nat \<Rightarrow> fs \<Rightarrow> entry list result \<times> fs" where
  "getIncome P now s =
     (case readData P now s of
        (Thrown e, s') \<Rightarrow> (Thrown e, s')
      | (Returned d, s') \<Rightarrow> (Returned (income d), s'))"



text \<open>
  \<open>findIndex(e => e.id === id)\<close>: the index of the first element of that id, \<open>None\<close>
  for -1; the callback throws on an element \<open>null\<close> it comes to.
\<close>

fun findIndex_id :: "jsstring \<Rightarrow> entry list \<Rightarrow> nat option result" where
  "findIndex_id i [] = Returned None"
| "findIndex_id i (ENull # es) = Thrown TypeError"
| "findIndex_id i (e # es) =
     (if j_id (members e) = Str i then Returned (Some 0)
      else (case findIndex_id i es of
              Thrown err \<Rightarrow> Thrown err
            | Returned None \<Rightarrow> Returned None
            | Returned (Some k) \<Rightarrow> Returned (Some (Suc k))))"


definition store_updateExpense ::
  "platform \<Rightarrow> nat \<Rightarrow> jsstring \<Rightarrow> item \<Rightarrow> fs \<Rightarrow> bool result \<times> fs" where
  "store_updateExpense P now i updatedExpense s =
     (case readData P now s of
        (Thrown err, s') \<Rightarrow> (Thrown err, s')
      | (Returned d, s') \<Rightarrow>
          (case findIndex_id i (expenses d) of
             Thrown err \<Rightarrow> (Thrown err, s')
           | Returned None \<Rightarrow> (Returned False, s')
           | Returned (Some k) \<Rightarrow>
               (case writeData P now
                       (document_json (d\<lparr>expenses := (expenses d)[k := Rec updatedExpense]\<rparr>)) s' of
                  (Thrown err, s'') \<Rightarrow> (Thrown err, s'')
                | (Returned u, s'') \<Rightarrow> (Returned True, s''))))"




text \<open>Successive calls of \<open>writeData\<close>, each with its clock and its data; the
  sequence ends at the first call that throws.\<close>

fun successive_writes :: "platform \<Rightarrow> (nat \<times> jsontop) list \<Rightarrow> fs \<Rightarrow> unit result \<times> fs" where
  "successive_writes P [] s = (Returned (), s)"
| "successive_writes P ((now, data) # ws) s =
     (case writeData P now data s of
        (Thrown e, s') \<Rightarrow> (Thrown e, s')
      | (Returned u, s') \<Rightarrow> successive_writes P ws s')"

section \<open>The transaction service (services/TransactionService.js)\<close>

text \<open>
  The result objects \<open>{success, message, ...}\<close>; the message of a caught error,
  \<open>`Failed to add expense: ${error.message}`\<close>, is kept as the action and the error.
\<close>

datatype message = Msg jsstring | Failed string error

record sresult =
  success :: bool
  message :: message
  payload :: "item option"

definition failure :: "message \<Rightarrow> sresult" where
  "failure m = \<lparr>success = False, message = m, payload = None\<rparr>"

text \<open>The \<open>filters\<close> and the \<open>updates\<close> objects; a missing key is \<open>undefined\<close>.\<close>

record filters =
  f_type :: jsval
  f_startDate :: datearg
  f_endDate :: datearg
  f_category :: jsval
  f_source :: jsval

record updates =
  u_amount :: jsval
  u_date :: datearg
  u_category :: jsval
  u_source :: jsval
  u_description :: jsval
  u_currency :: jsval



text \<open>
  The comparison function of the sort, \<open>new Date(b.date) - new Date(a.date)\<close>; it is
  \<open>NaN\<close> when a date is invalid, which \<open>sort\<close> reads as 0. The sort is stable; with
  invalid dates among the items the comparison is not consistent and the language
  leaves the order to the implementation, of which the insertion below is one.
\<close>

definition compare_dates :: "item \<Rightarrow> item \<Rightarrow> int" where
  "compare_dates a b =
     (case (newDateOf (date_member (j_date b)), newDateOf (date_member (j_date a))) of
        (Some tb, Some ta) \<Rightarrow> tb - ta
      | _ \<Rightarrow> 0)"

fun insert_by_date :: "item \<Rightarrow> item list \<Rightarrow> item list" where
  "insert_by_date x [] = [x]"
| "insert_by_date x (y # ys) =
     (if compare_dates x y \<le> 0 then x # y # ys else y # insert_by_date x ys)"

definition sort_by_date :: "item list \<Rightarrow> item list" where
  "sort_by_date xs = foldr insert_by_date xs []"

text \<open>\<open>{ ...e, type: 'expense' }\<close> and \<open>{ ...i, type: 'income' }\<close>\<close>

definition tagged :: "entry list \<Rightarrow> entry list \<Rightarrow> item list" where
  "tagged es is =
     map (\<lambda>e. (members e)\<lparr>j_type := Str (ascii ''expense'')\<rparr>) es
     @ map (\<lambda>i. (members i)\<lparr>j_type := Str (ascii ''income'')\<rparr>) is"

definition filter_type :: "filters \<Rightarrow> item list \<Rightarrow> item list" where
  "filter_type f ts =
     (if strict_eq (f_type f) (Str (ascii ''expense''))
      then filter (\<lambda>t. strict_eq (j_type t) (Str (ascii ''expense''))) ts
      else if strict_eq (f_type f) (Str (ascii ''income''))
      then filter (\<lambda>t. strict_eq (j_type t) (Str (ascii ''income''))) ts
      else ts)"

definition filter_dates :: "int \<Rightarrow> filters \<Rightarrow> item list \<Rightarrow> item list" where
  "filter_dates z f ts =
     (if bound_truthy (f_startDate f) \<or> bound_truthy (f_endDate f)
      then filter (\<lambda>t. isDateInRange z (date_member (j_date t)) (f_startDate f) (f_endDate f)) ts
      else ts)"

definition filter_category :: "filters \<Rightarrow> item list \<Rightarrow> item list" where
  "filter_category f ts =
     (if truthy (f_category f)
      then filter (\<lambda>t. strict_eq (j_type t) (Str (ascii ''expense''))
                        \<and> strict_eq (j_category t) (f_category f)) ts
      else ts)"

definition filter_source :: "filters \<Rightarrow> item list \<Rightarrow> item list" where
  "filter_source f ts =
     (if truthy (f_source f)
      then filter (\<lambda>t. strict_eq (j_type t) (Str (ascii ''income''))
                        \<and> strict_eq (j_source t) (f_source f)) ts
      else ts)"

definition getTransactions ::
  "platform \<Rightarrow> nat \<Rightarrow> filters \<Rightarrow> fs \<Rightarrow> item list result \<times> fs" where
  "getTransactions P now f s =
     (case getExpenses P now s of
        (Thrown e, s1) \<Rightarrow> (Thrown e, s1)
      | (Returned es, s1) \<Rightarrow>
          (case getIncome P now s1 of
             (Thrown e, s2) \<Rightarrow> (Thrown e, s2)
           | (Returned is, s2) \<Rightarrow>
               (Returned
                  (sort_by_date
                     (filter_source f (filter_category f
                        (filter_dates (zone P) f (filter_type f (tagged es is)))))),
                s2)))"



text \<open>
  \<open>find\<close> with a callback that reads \<open>e.id\<close>: it throws on an element \<open>null\<close> it comes
  to, and the callbacks below are false on an element without \<open>id\<close>.
\<close>

fun find_by :: "(item \<Rightarrow> bool result) \<Rightarrow> entry list \<Rightarrow> item option result" where
  "find_by p [] = Returned None"
| "find_by p (ENull # es) = Thrown TypeError"
| "find_by p (e # es) =
     (case p (members e) of
        Thrown err \<Rightarrow> Thrown err
      | Returned True \<Rightarrow> Returned (Some (members e))
      | Returned False \<Rightarrow> find_by p es)"

text \<open>\<open>e.id === id\<close>\<close>

definition id_is :: "jsstring \<Rightarrow> item \<Rightarrow> bool result" where
  "id_is i e = Returned (strict_eq (j_id e) (Str i))"


definition getExpenseById :: "platform \<Rightarrow> nat \<Rightarrow> jsstring \<Rightarrow> fs \<Rightarrow> item option result \<times> fs" where
  "getExpenseById P now i s =
     (case getExpenses P now s of
        (Thrown e, s') \<Rightarrow> (Thrown e, s')
      | (Returned es, s') \<Rightarrow> (find_by (id_is i) es, s'))"







text \<open>The value \<open>new Expense(...)\<close> (\<open>new Income(...)\<close>) that an update builds from the
  stored object and the \<open>updates\<close>.\<close>

definition rebuilt_Expense :: "platform \<Rightarrow> nat \<Rightarrow> jsstring \<Rightarrow> item \<Rightarrow> updates \<Rightarrow> expense" where
  "rebuilt_Expense P now uuid expense u =
     new_Expense (zone P) now uuid
       (if u_amount u \<noteq> Undefined then u_amount u else j_amount expense)
       (DObj (if u_date u \<noteq> DUndefined then newDateOf (u_date u)
              else newDateOf (date_member (j_date expense))))
       (if u_category u \<noteq> Undefined then u_category u else j_category expense)
       (if u_description u \<noteq> Undefined then u_description u else j_description expense)
       (if u_currency u \<noteq> Undefined then u_currency u
        else or_else (j_currency expense) (Str (ascii ''$'')))
       (j_id expense)"


definition updateExpense ::
  "platform \<Rightarrow> nat \<Rightarrow> jsstring \<Rightarrow> jsstring \<Rightarrow> updates \<Rightarrow> fs \<Rightarrow> sresult result \<times> fs" where
  "updateExpense P now uuid i u s =
     (case getExpenseById P now i s of
        (Thrown e, s1) \<Rightarrow> (Returned (failure (Failed ''update expense'' e)), s1)
      | (Returned None, s1) \<Rightarrow> (Returned (failure (Msg (ascii ''Expense not found''))), s1)
      | (Returned (Some expense), s1) \<Rightarrow>
          (let updatedExpense = rebuilt_Expense P now uuid expense u;
               validation = Expense_validate updatedExpense
           in if \<not> isValid validation
              then (Returned (failure (Msg (join (ascii '', '') (errors validation)))), s1)
              else (case store_updateExpense P now i (Expense_toJSON updatedExpense) s1 of
                      (Thrown e, s2) \<Rightarrow> (Returned (failure (Failed ''update expense'' e)), s2)
                    | (Returned b, s2) \<Rightarrow>
                        (Returned \<lparr>success = True,
                                   message = Msg (ascii ''Expense updated successfully''),
                                   payload = Some (Expense_toJSON updatedExpense)\<rparr>, s2))))"



section \<open>The filters of \<open>getTransactions\<close> in the spec's words\<close>

text \<open>
  A bound given as a date text; the inclusive range of calendar days; the calendar
  day of a record whose date is stored in the canonical form \<open>YYYY-MM-DD\<close>; and the
  conjunction of the four filters.
\<close>

definition text_bound :: "int option \<Rightarrow> datearg" where
  "text_bound d = (case d of None \<Rightarrow> DUndefined | Some n \<Rightarrow> DText (Iso n))"

definition in_calendar_range :: "int \<Rightarrow> int option \<Rightarrow> int option \<Rightarrow> bool" where
  "in_calendar_range n lo hi =
     ((case lo of None \<Rightarrow> True | Some a \<Rightarrow> a \<le> n) \<and> (case hi of None \<Rightarrow> True | Some b \<Rightarrow> n \<le> b))"

definition day_of :: "item \<Rightarrow> int" where
  "day_of t = (case j_date t of Some (Iso n) \<Rightarrow> n | _ \<Rightarrow> 0)"

definition canonical :: "item \<Rightarrow> bool" where
  "canonical t = (case j_date t of Some (Iso n) \<Rightarrow> True | _ \<Rightarrow> False)"

definition matches :: "filters \<Rightarrow> int option \<Rightarrow> int option \<Rightarrow> item \<Rightarrow> bool" where
  "matches f lo hi t =
     ((if f_type f = Str (ascii ''expense'') then j_type t = Str (ascii ''expense'')
       else if f_type f = Str (ascii ''income'') then j_type t = Str (ascii ''income'')
       else True) \<and>
      in_calendar_range (day_of t) lo hi \<and>
      (if truthy (f_category f)
       then j_type t = Str (ascii ''expense'') \<and> j_category t = f_category f
       else True) \<and>
      (if truthy (f_source f)
       then j_type t = Str (ascii ''income'') \<and> j_source t = f_source f
       else True))"

section \<open>Sample values\<close>

definition expense_over_cap :: expense where
  "expense_over_cap =
     new_Expense 0 0 (ascii ''u1'') (Num (Fin 1000000000)) (DText (Iso 19723))
       (Str (ascii ''Food'')) (Str []) (Str (ascii ''$'')) Null"

definition income_over_cap :: income where
  "income_over_cap =
     new_Income 0 0 (ascii ''u1'') (Num (Fin 1000000000)) (DText (Iso 19723))
       (Str (ascii ''Salary'')) (Str []) (Str (ascii ''$'')) Null"

definition expense_at_cap :: expense where
  "expense_at_cap =
     new_Expense 0 0 (ascii ''u1'') (Num (Fin 999999999)) (DText (Iso 19723))
       (Str (ascii ''Food'')) (Str []) (Str (ascii ''$'')) Null"


definition cache_zero_rate :: cache where
  "cache_zero_rate =
     \<lparr>c_rates = Some [(ascii ''USD'', 1), (ascii ''EUR'', 0)],
      c_baseCurrency = Some (ascii ''USD''), c_timestamp = Some 1\<rparr>"

definition sample_byteLength :: "jsontop \<Rightarrow> nat" where
  "sample_byteLength d =
     (case d of
        JObject es is st \<Rightarrow>
          64 + 256 * (length (case es of Some e \<Rightarrow> e | None \<Rightarrow> [])
                      + length (case is of Some i \<Rightarrow> i | None \<Rightarrow> []))
      | _ \<Rightarrow> 4)"

definition platform_utc :: platform where
  "platform_utc = \<lparr>zone = 0, byteLength = sample_byteLength\<rparr>"

definition platform_new_york :: platform where
  "platform_new_york = \<lparr>zone = - 18000000, byteLength = sample_byteLength\<rparr>"

definition lunch :: item where
  "lunch =
     \<lparr>j_id = Str (ascii ''ab12''), j_amount = Num (Fin 12), j_date = Some (Iso 19723),
      j_description = Str (ascii ''lunch''), j_currency = Str (ascii ''$''),
      j_createdAt = Some 1000, j_category = Str (ascii ''Food''), j_source = Undefined,
      j_type = Str (ascii ''expense'')\<rparr>"

definition store_with :: "entry list \<Rightarrow> entry list \<Rightarrow> fs" where
  "store_with es is =
     \<lparr>dataFile = Some \<lparr>fsize = 64 + 256 * (length es + length is),
                        fbody = Json (JObject (Some es) (Some is) (Some []))\<rparr>,
      tempFile = None, backupFile = None, backups = [], corrupted = [],
      readable = True, writable = True, listable = True\<rparr>"

definition garbage_file :: disk_file where
  "garbage_file = \<lparr>fsize = 5, fbody = Text (ascii ''{oops'')\<rparr>"






definition to_gadgets :: updates where
  "to_gadgets =
     \<lparr>u_amount = Undefined, u_date = DUndefined, u_category = Str (ascii ''Gadgets''),
      u_source = Undefined, u_description = Undefined, u_currency = Undefined\<rparr>"

definition to_negative :: updates where
  "to_negative =
     \<lparr>u_amount = Num (Fin (- 5)), u_date = DUndefined, u_category = Undefined,
      u_source = Undefined, u_description = Undefined, u_currency = Undefined\<rparr>"



definition no_filters :: filters where
  "no_filters =
     \<lparr>f_type = Undefined, f_startDate = DUndefined, f_endDate = DUndefined,
      f_category = Undefined, f_source = Undefined\<rparr>"

definition new_description :: updates where
  "new_description =
     \<lparr>u_amount = Undefined, u_date = DUndefined, u_category = Undefined, u_source = Undefined,
      u_description = Str (ascii ''dinner''), u_currency = Undefined\<rparr>"

definition from_new_year :: filters where
  "from_new_year =
     \<lparr>f_type = Undefined, f_startDate = DObj (Some 1704085200000),
      f_endDate = DUndefined, f_category = Undefined, f_source = Undefined\<rparr>"

definition five_writes :: "(nat \<times> jsontop) list" where
  "five_writes =
     [(10, document_json empty_document), (20, document_json empty_document),
      (30, document_json empty_document), (40, document_json empty_document),
      (50, document_json empty_document)]"

definition stale_backups :: "backup list" where
  "stale_backups =
     [\<lparr>b_name = 1, b_mtime = 1, b_file = garbage_file, b_statable = True, b_locked = False\<rparr>,
      \<lparr>b_name = 2, b_mtime = 4, b_file = garbage_file, b_statable = True, b_locked = False\<rparr>,
      \<lparr>b_name = 3, b_mtime = 3, b_file = garbage_file, b_statable = True, b_locked = False\<rparr>,
      \<lparr>b_name = 4, b_mtime = 2, b_file = garbage_file, b_statable = True, b_locked = False\<rparr>]"

definition rotation_start :: fs where
  "rotation_start = (store_with [] [])\<lparr>backups := stale_backups\<rparr>"

text \<open>Three backups, the oldest of them locked.\<close>

definition locked_backups :: "backup list" where
  "locked_backups =
     [\<lparr>b_name = 1, b_mtime = 1, b_file = garbage_file, b_statable = True, b_locked = True\<rparr>,
      \<lparr>b_name = 2, b_mtime = 2, b_file = garbage_file, b_statable = True, b_locked = False\<rparr>,
      \<lparr>b_name = 3, b_mtime = 3, b_file = garbage_file, b_statable = True, b_locked = False\<rparr>]"

definition locked_start :: fs where
  "locked_start = (store_with [] [])\<lparr>backups := locked_backups\<rparr>"

section \<open>Properties of the domain model\<close>

lemma ascii_inject [simp]: "ascii a = ascii b \<longleftrightarrow> a = b"
proof
  assume "ascii a = ascii b"
  then have "map (char_of :: nat \<Rightarrow> char) (ascii a) = map char_of (ascii b)"
    by simp
  then show "a = b"
    by (simp add: ascii_def comp_def)
qed simp

lemma ascii_empty [simp]: "ascii s = [] \<longleftrightarrow> s = []" "[] = ascii s \<longleftrightarrow> s = []"
  by (auto simp: ascii_def)

lemma length_ascii [simp]: "length (ascii s) = length s"
  by (simp add: ascii_def)

lemmas symbol_defs =
  SYMBOL_TO_CODE_def OBJECT_PROTOTYPE_def euro_sign_def pound_sign_def rupee_sign_def
  yen_sign_def ascii_def

lemmas construct_defs =
  new_Expense_def new_Income_def new_Transaction_def transaction.extend_def
  expense.fields_def income.fields_def default_param_def or_else_def

lemmas validate_defs =
  Expense_validate_def Income_validate_def Transaction_validate_def category_errors_def
  source_errors_def EXPENSE_CATEGORIES_def INCOME_SOURCES_def

text \<open>
  What \<open>validate()\<close> does enforce on the amount: a value that is not a positive finite
  number is rejected with one of the four amount messages.
\<close>

lemma Transaction_validate_rejects_bad_amount:
  assumes "\<forall>x. amount t = Num (Fin x) \<longrightarrow> x \<le> 0"
  shows "\<not> isValid (Transaction_validate t) \<and>
         (\<exists>m \<in> set (errors (Transaction_validate t)).
            m \<in> {ascii ''Amount must be a number'', ascii ''Amount cannot be NaN'',
                 ascii ''Amount must be finite'', ascii ''Amount must be a positive number''})"
  using assms
  by (cases "amount t" rule: amount_errors.cases)
     (auto simp: Transaction_validate_def Let_def)

lemma Expense_validate_rejects_bad_amount:
  assumes "\<forall>x. amount e = Num (Fin x) \<longrightarrow> x \<le> 0"
  shows "\<not> isValid (Expense_validate e)"
  using Transaction_validate_rejects_bad_amount [OF assms]
  by (auto simp: Expense_validate_def Transaction_validate_def Let_def)

lemma Income_validate_rejects_bad_amount:
  assumes "\<forall>x. amount i = Num (Fin x) \<longrightarrow> x \<le> 0"
  shows "\<not> isValid (Income_validate i)"
  using Transaction_validate_rejects_bad_amount [OF assms]
  by (auto simp: Income_validate_def Transaction_validate_def Let_def)

text \<open>
  C1 (the code departs from the claim). The claim: \<open>validate()\<close> rejects an amount
  above the maximum 999,999,999, so a value with amount 1000000000 always fails.
  \<open>Transaction.validate\<close> has no upper bound: an Expense and an Income with amount
  1000000000 and otherwise valid fields validate with an empty error list, as the
  Expense with amount 999999999 does. The bound is enforced only by \<open>validateAmount\<close>
  (utils/validators.js) and by the add form of the desktop renderer.
\<close>

theorem validate_accepts_amount_over_cap:
  "Expense_validate expense_over_cap = \<lparr>isValid = True, errors = []\<rparr> \<and>
   amount expense_over_cap = Num (Fin 1000000000) \<and>
   Income_validate income_over_cap = \<lparr>isValid = True, errors = []\<rparr> \<and>
   amount income_over_cap = Num (Fin 1000000000) \<and>
   Expense_validate expense_at_cap = \<lparr>isValid = True, errors = []\<rparr> \<and>
   amount expense_at_cap = Num (Fin 999999999)"
  by (simp add: expense_over_cap_def income_over_cap_def expense_at_cap_def construct_defs
      validate_defs)




section \<open>Properties of the exchange rate service\<close>

lemma getCodeFromSymbol_other:
  "symbol \<notin> set (map fst SYMBOL_TO_CODE) \<Longrightarrow> symbol \<notin> set OBJECT_PROTOTYPE
   \<Longrightarrow> getCodeFromSymbol symbol = CodeText symbol"
  by (simp add: getCodeFromSymbol_def map_of_eq_None_iff [THEN iffD2])

lemma getCodeFromSymbol_inherited:
  "symbol \<in> set OBJECT_PROTOTYPE \<Longrightarrow> getCodeFromSymbol symbol = Inherited symbol"
proof -
  assume a: "symbol \<in> set OBJECT_PROTOTYPE"
  then have "symbol \<notin> set (map fst SYMBOL_TO_CODE)"
    by (auto simp: symbol_defs)
  then have "map_of SYMBOL_TO_CODE symbol = None"
    by (simp add: map_of_eq_None_iff)
  with a show ?thesis
    by (simp add: getCodeFromSymbol_def)
qed

lemma getCodeFromSymbol_yen: "getCodeFromSymbol yen_sign = CodeText (ascii ''JPY'')"
  by (simp add: getCodeFromSymbol_def symbol_defs)

lemma getCodeFromSymbol_JPY: "getCodeFromSymbol (ascii ''JPY'') = CodeText (ascii ''JPY'')"
  by (simp add: getCodeFromSymbol_def symbol_defs)

lemma getCodeFromSymbol_CodeTextD:
  "getCodeFromSymbol symbol = CodeText c
   \<Longrightarrow> c \<in> set (map snd SYMBOL_TO_CODE) \<or> (c = symbol \<and> symbol \<notin> set OBJECT_PROTOTYPE)"
  by (auto simp: getCodeFromSymbol_def split: option.splits if_splits dest!: map_of_SomeD)
     (force simp: symbol_defs)+

text \<open>
  The key read in a rate table is never the name of a member inherited from
  \<open>Object.prototype\<close>: the read finds a property of the table's own or nothing.
\<close>

lemma property_key_own: "property_key (getCodeFromSymbol symbol) \<notin> set OBJECT_PROTOTYPE"
proof (cases "getCodeFromSymbol symbol")
  case (CodeText c)
  from getCodeFromSymbol_CodeTextD [OF this] show ?thesis
    unfolding CodeText by (auto simp: property_key_def symbol_defs)
next
  case (Inherited m)
  then have "m \<in> set OBJECT_PROTOTYPE"
    by (auto simp: getCodeFromSymbol_def split: option.splits if_splits)
  then show ?thesis
    unfolding Inherited by (auto simp: property_key_def symbol_defs)
qed

text \<open>
  C10 (amended). The mapping from symbols to codes, used by \<open>convert\<close> and
  \<open>convertStatic\<close> alike, gives the table's code for each of the nine symbols of
  \<open>SYMBOL_TO_CODE\<close>. Every other text is given back unchanged (the currency codes
  among them), except the twelve names of the members an object literal inherits from
  \<open>Object.prototype\<close>: for such a name the mapping returns the inherited member, not
  the text. The yen sign maps to \<open>JPY\<close>: the only texts mapped to \<open>JPY\<close> are the yen
  sign and \<open>JPY\<close> itself, and the only text mapped to \<open>CNY\<close> is \<open>CNY\<close> itself,
  although \<open>CURRENCY_OPTIONS\<close> lists the yen sign as the symbol of both. So an amount
  in the currency written with the yen sign is converted exactly as an amount in
  \<open>JPY\<close>, in both directions and by both conversions: at the rate the table has for
  \<open>JPY\<close>.
\<close>

theorem getCodeFromSymbol_table:
  "getCodeFromSymbol (ascii ''$'') = CodeText (ascii ''USD'') \<and>
   getCodeFromSymbol euro_sign = CodeText (ascii ''EUR'') \<and>
   getCodeFromSymbol pound_sign = CodeText (ascii ''GBP'') \<and>
   getCodeFromSymbol rupee_sign = CodeText (ascii ''INR'') \<and>
   getCodeFromSymbol yen_sign = CodeText (ascii ''JPY'') \<and>
   getCodeFromSymbol (ascii ''C$'') = CodeText (ascii ''CAD'') \<and>
   getCodeFromSymbol (ascii ''A$'') = CodeText (ascii ''AUD'') \<and>
   getCodeFromSymbol (ascii ''Fr'') = CodeText (ascii ''CHF'') \<and>
   getCodeFromSymbol (ascii ''R$'') = CodeText (ascii ''BRL'') \<and>
   (symbol \<notin> {ascii ''$'', euro_sign, pound_sign, rupee_sign, yen_sign, ascii ''C$'',
               ascii ''A$'', ascii ''Fr'', ascii ''R$''} \<and>
    symbol \<notin> set OBJECT_PROTOTYPE
      \<longrightarrow> getCodeFromSymbol symbol = CodeText symbol) \<and>
   (symbol \<in> set OBJECT_PROTOTYPE \<longrightarrow> getCodeFromSymbol symbol = Inherited symbol) \<and>
   (symbol \<in> set (map fst static_usd) \<longrightarrow> getCodeFromSymbol symbol = CodeText symbol) \<and>
   (getCodeFromSymbol symbol = CodeText (ascii ''JPY'')
      \<longleftrightarrow> symbol = yen_sign \<or> symbol = ascii ''JPY'') \<and>
   (getCodeFromSymbol symbol = CodeText (ascii ''CNY'') \<longleftrightarrow> symbol = ascii ''CNY'') \<and>
   (yen_sign, ascii ''JPY'') \<in> set CURRENCY_OPTIONS \<and>
   (yen_sign, ascii ''CNY'') \<in> set CURRENCY_OPTIONS \<and>
   convertStatic c amt yen_sign other = convertStatic c amt (ascii ''JPY'') other \<and>
   convertStatic c amt other yen_sign = convertStatic c amt other (ascii ''JPY'') \<and>
   convert c now resp amt yen_sign other = convert c now resp amt (ascii ''JPY'') other \<and>
   convert c now resp amt other yen_sign = convert c now resp amt other (ascii ''JPY'') \<and>
   (getCodeFromSymbol other \<noteq> CodeText (ascii ''JPY'') \<and>
    table = (case c_rates c of Some r \<Rightarrow> r | None \<Rightarrow> static_usd) \<and>
    map_of table (ascii ''JPY'') = Some jpy \<and> jpy \<noteq> 0 \<and>
    map_of table (property_key (getCodeFromSymbol other)) = Some rate \<and> rate \<noteq> 0
      \<longrightarrow> convertStatic c amt yen_sign other = (amt / jpy) * rate \<and>
          convertStatic c amt other yen_sign = (amt / rate) * jpy) \<and>
   (getCodeFromSymbol other \<noteq> CodeText (ascii ''JPY'') \<and>
    getRates c now resp = (fetched, c') \<and>
    map_of fetched (ascii ''JPY'') = Some jpy \<and> jpy \<noteq> 0 \<and>
    map_of fetched (property_key (getCodeFromSymbol other)) = Some rate \<and> rate \<noteq> 0
      \<longrightarrow> convert c now resp amt yen_sign other = ((amt / jpy) * rate, c') \<and>
          convert c now resp amt other yen_sign = ((amt / rate) * jpy, c'))"
proof -
  have known: "getCodeFromSymbol (ascii ''$'') = CodeText (ascii ''USD'')"
    "getCodeFromSymbol euro_sign = CodeText (ascii ''EUR'')"
    "getCodeFromSymbol pound_sign = CodeText (ascii ''GBP'')"
    "getCodeFromSymbol rupee_sign = CodeText (ascii ''INR'')"
    "getCodeFromSymbol (ascii ''C$'') = CodeText (ascii ''CAD'')"
    "getCodeFromSymbol (ascii ''A$'') = CodeText (ascii ''AUD'')"
    "getCodeFromSymbol (ascii ''Fr'') = CodeText (ascii ''CHF'')"
    "getCodeFromSymbol (ascii ''R$'') = CodeText (ascii ''BRL'')"
    by (simp_all add: getCodeFromSymbol_def symbol_defs)
  have other: "getCodeFromSymbol symbol = CodeText symbol"
    if "symbol \<notin> {ascii ''$'', euro_sign, pound_sign, rupee_sign, yen_sign, ascii ''C$'',
                    ascii ''A$'', ascii ''Fr'', ascii ''R$''} \<and>
        symbol \<notin> set OBJECT_PROTOTYPE"
    using that by (intro getCodeFromSymbol_other) (simp_all add: SYMBOL_TO_CODE_def)
  have inherited: "symbol \<in> set OBJECT_PROTOTYPE \<longrightarrow> getCodeFromSymbol symbol = Inherited symbol"
    by (simp add: getCodeFromSymbol_inherited)
  have codes: "symbol \<in> set (map fst static_usd) \<longrightarrow> getCodeFromSymbol symbol = CodeText symbol"
    by (auto simp: static_usd_def STATIC_RATES_def getCodeFromSymbol_def symbol_defs)
  have jpy: "getCodeFromSymbol symbol = CodeText (ascii ''JPY'')
               \<longleftrightarrow> symbol = yen_sign \<or> symbol = ascii ''JPY''"
    by (auto simp: getCodeFromSymbol_def symbol_defs split: if_splits)
  have cny: "getCodeFromSymbol symbol = CodeText (ascii ''CNY'') \<longleftrightarrow> symbol = ascii ''CNY''"
    by (auto simp: getCodeFromSymbol_def symbol_defs split: if_splits)
  have options: "(yen_sign, ascii ''JPY'') \<in> set CURRENCY_OPTIONS"
    "(yen_sign, ascii ''CNY'') \<in> set CURRENCY_OPTIONS"
    by (simp_all add: CURRENCY_OPTIONS_def)
  have same: "convertStatic c amt yen_sign other = convertStatic c amt (ascii ''JPY'') other"
    "convertStatic c amt other yen_sign = convertStatic c amt other (ascii ''JPY'')"
    "convert c now resp amt yen_sign other = convert c now resp amt (ascii ''JPY'') other"
    "convert c now resp amt other yen_sign = convert c now resp amt other (ascii ''JPY'')"
    by (simp_all only: convertStatic_def convert_def getCodeFromSymbol_yen getCodeFromSymbol_JPY)
  have static: "convertStatic c amt yen_sign other = (amt / jpy) * rate \<and>
                convertStatic c amt other yen_sign = (amt / rate) * jpy"
    if "getCodeFromSymbol other \<noteq> CodeText (ascii ''JPY'') \<and>
        table = (case c_rates c of Some r \<Rightarrow> r | None \<Rightarrow> static_usd) \<and>
        map_of table (ascii ''JPY'') = Some jpy \<and> jpy \<noteq> 0 \<and>
        map_of table (property_key (getCodeFromSymbol other)) = Some rate \<and> rate \<noteq> 0"
    using that
    by (auto simp: convertStatic_def cross_rate_def getCodeFromSymbol_yen property_key_def Let_def)
  have fetched: "convert c now resp amt yen_sign other = ((amt / jpy) * rate, c') \<and>
                 convert c now resp amt other yen_sign = ((amt / rate) * jpy, c')"
    if "getCodeFromSymbol other \<noteq> CodeText (ascii ''JPY'') \<and>
        getRates c now resp = (fetched, c') \<and>
        map_of fetched (ascii ''JPY'') = Some jpy \<and> jpy \<noteq> 0 \<and>
        map_of fetched (property_key (getCodeFromSymbol other)) = Some rate \<and> rate \<noteq> 0"
    using that
    by (auto simp: convert_def cross_rate_def getCodeFromSymbol_yen property_key_def Let_def)
  show ?thesis
    using known getCodeFromSymbol_yen other inherited codes jpy cny options same static fetched
    by blast
qed

theorem getCodeFromSymbol_table_witness:
  "getCodeFromSymbol (ascii ''USD'') = CodeText (ascii ''USD'') \<and>
   getCodeFromSymbol (ascii ''toString'') = Inherited (ascii ''toString'') \<and>
   getCodeFromSymbol (ascii ''CNY'') = CodeText (ascii ''CNY'') \<and>
   convertStatic empty_cache 14800 yen_sign (ascii ''$'') = (14800 / 148) * 1 \<and>
   convertStatic empty_cache 100 (ascii ''$'') yen_sign = (100 / 1) * 148 \<and>
   convert empty_cache 5 (FetchedBody (Some [(ascii ''USD'', 1), (ascii ''JPY'', 150), (ascii ''CNY'', 7)]))
       300 yen_sign (ascii ''$'')
     = ((300 / 150) * 1,
        \<lparr>c_rates = Some [(ascii ''USD'', 1), (ascii ''JPY'', 150), (ascii ''CNY'', 7)],
         c_baseCurrency = Some (ascii ''USD''), c_timestamp = Some 5\<rparr>)"
proof -
  have a: "ascii ''USD'' \<notin> {ascii ''$'', euro_sign, pound_sign, rupee_sign, yen_sign,
             ascii ''C$'', ascii ''A$'', ascii ''Fr'', ascii ''R$''} \<and>
           ascii ''USD'' \<notin> set OBJECT_PROTOTYPE"
    by (simp add: symbol_defs)
  have b: "ascii ''toString'' \<in> set OBJECT_PROTOTYPE"
    by (simp add: OBJECT_PROTOTYPE_def)
  have c: "ascii ''CNY'' \<in> set (map fst static_usd)"
    by (simp add: static_usd_def STATIC_RATES_def)
  have d: "getCodeFromSymbol (ascii ''$'') \<noteq> CodeText (ascii ''JPY'')"
    "property_key (getCodeFromSymbol (ascii ''$'')) = ascii ''USD''"
    by (simp_all add: getCodeFromSymbol_def property_key_def symbol_defs)
  have e: "(case c_rates empty_cache of Some r \<Rightarrow> r | None \<Rightarrow> static_usd) = static_usd"
    "map_of static_usd (ascii ''JPY'') = Some 148" "map_of static_usd (ascii ''USD'') = Some 1"
    by (simp_all add: empty_cache_def static_usd_def STATIC_RATES_def)
  have f: "getRates empty_cache 5
             (FetchedBody (Some [(ascii ''USD'', 1), (ascii ''JPY'', 150), (ascii ''CNY'', 7)]))
           = ([(ascii ''USD'', 1), (ascii ''JPY'', 150), (ascii ''CNY'', 7)],
              \<lparr>c_rates = Some [(ascii ''USD'', 1), (ascii ''JPY'', 150), (ascii ''CNY'', 7)],
               c_baseCurrency = Some (ascii ''USD''), c_timestamp = Some 5\<rparr>)"
    by (simp add: getRates_def getCachedRates_def fetchRates_def empty_cache_def)
  have g: "map_of [(ascii ''USD'', 1), (ascii ''JPY'', 150 :: rat), (ascii ''CNY'', 7)] (ascii ''JPY'')
             = Some 150"
    "map_of [(ascii ''USD'', 1 :: rat), (ascii ''JPY'', 150), (ascii ''CNY'', 7)]
       (property_key (getCodeFromSymbol (ascii ''$''))) = Some 1"
    "map_of static_usd (property_key (getCodeFromSymbol (ascii ''$''))) = Some 1"
    "(148 :: rat) \<noteq> 0" "(150 :: rat) \<noteq> 0" "(1 :: rat) \<noteq> 0"
    "static_usd = (case c_rates empty_cache of Some r \<Rightarrow> r | None \<Rightarrow> static_usd)"
    by (simp_all add: d e)
  note inst = getCodeFromSymbol_table
    [where c = empty_cache and other = "ascii ''$''" and table = static_usd and jpy = 148
       and rate = 1 and now = 5
       and resp = "FetchedBody (Some [(ascii ''USD'', 1), (ascii ''JPY'', 150), (ascii ''CNY'', 7)])"
       and fetched = "[(ascii ''USD'', 1), (ascii ''JPY'', 150), (ascii ''CNY'', 7)]"
       and c' = "\<lparr>c_rates = Some [(ascii ''USD'', 1), (ascii ''JPY'', 150), (ascii ''CNY'', 7)],
                  c_baseCurrency = Some (ascii ''USD''), c_timestamp = Some 5\<rparr>"]
  have w1: "getCodeFromSymbol (ascii ''USD'') = CodeText (ascii ''USD'')"
    using inst [where symbol = "ascii ''USD''" and amt = 0] a by blast
  have w2: "getCodeFromSymbol (ascii ''toString'') = Inherited (ascii ''toString'')"
    using inst [where symbol = "ascii ''toString''" and amt = 0] b by blast
  have w3: "getCodeFromSymbol (ascii ''CNY'') = CodeText (ascii ''CNY'')"
    using inst [where symbol = "ascii ''CNY''" and amt = 0] c by blast
  have w4: "convertStatic empty_cache 14800 yen_sign (ascii ''$'') = (14800 / 148) * 1"
    using inst [where symbol = "ascii ''CNY''" and amt = 14800] d(1) e(2) g by blast
  have w5: "convertStatic empty_cache 100 (ascii ''$'') yen_sign = (100 / 1) * 148"
    using inst [where symbol = "ascii ''CNY''" and amt = 100] d(1) e(2) g by blast
  have w6: "convert empty_cache 5
              (FetchedBody (Some [(ascii ''USD'', 1), (ascii ''JPY'', 150), (ascii ''CNY'', 7)]))
              300 yen_sign (ascii ''$'')
            = ((300 / 150) * 1,
               \<lparr>c_rates = Some [(ascii ''USD'', 1), (ascii ''JPY'', 150), (ascii ''CNY'', 7)],
                c_baseCurrency = Some (ascii ''USD''), c_timestamp = Some 5\<rparr>)"
    using getCodeFromSymbol_table
      [where c = empty_cache and other = "ascii ''$''" and jpy = 150 and rate = 1 and now = 5
         and resp = "FetchedBody (Some [(ascii ''USD'', 1), (ascii ''JPY'', 150), (ascii ''CNY'', 7)])"
         and fetched = "[(ascii ''USD'', 1), (ascii ''JPY'', 150), (ascii ''CNY'', 7)]"
         and c' = "\<lparr>c_rates = Some [(ascii ''USD'', 1), (ascii ''JPY'', 150), (ascii ''CNY'', 7)],
                    c_baseCurrency = Some (ascii ''USD''), c_timestamp = Some 5\<rparr>"
         and symbol = "ascii ''CNY''" and amt = 300 and table = static_usd]
      d(1) f g by blast
  show ?thesis
    using w1 w2 w3 w4 w5 w6 by blast
qed

text \<open>
  The claim as stated fails on the names an object literal inherits: for
  \<open>'constructor'\<close>, \<open>'toString'\<close> and \<open>'__proto__'\<close>, none of them a symbol of the
  table, the mapping does not return the text.
\<close>

theorem getCodeFromSymbol_inherited_counterexample:
  "ascii ''constructor'' \<notin> set (map fst SYMBOL_TO_CODE) \<and>
   getCodeFromSymbol (ascii ''constructor'') = Inherited (ascii ''constructor'') \<and>
   getCodeFromSymbol (ascii ''constructor'') \<noteq> CodeText (ascii ''constructor'') \<and>
   getCodeFromSymbol (ascii ''toString'') \<noteq> CodeText (ascii ''toString'') \<and>
   getCodeFromSymbol (ascii ''__proto__'') \<noteq> CodeText (ascii ''__proto__'')"
  by (simp add: getCodeFromSymbol_def symbol_defs)

text \<open>
  C7 (amended). \<open>convertStatic(amount, from, to)\<close> returns the amount itself when the
  codes of \<open>from\<close> and \<open>to\<close> are equal; the amount unchanged when, in the consulted
  table (the cached rates if there are any, otherwise the static table), the rate of
  either code is missing or is zero (a zero rate is falsy, and \<open>!rate\<close> sends it the
  way of a missing one); and otherwise \<open>(amount / rate[from]) * rate[to]\<close>.
\<close>

theorem convertStatic_cases:
  "(getCodeFromSymbol fromCurrency = getCodeFromSymbol toCurrency
      \<longrightarrow> convertStatic c amt fromCurrency toCurrency = amt) \<and>
   (getCodeFromSymbol fromCurrency \<noteq> getCodeFromSymbol toCurrency \<and>
    table = (case c_rates c of Some r \<Rightarrow> r | None \<Rightarrow> static_usd) \<and>
    (rate_falsy (map_of table (property_key (getCodeFromSymbol fromCurrency))) \<or>
     rate_falsy (map_of table (property_key (getCodeFromSymbol toCurrency))))
      \<longrightarrow> convertStatic c amt fromCurrency toCurrency = amt) \<and>
   (getCodeFromSymbol fromCurrency \<noteq> getCodeFromSymbol toCurrency \<and>
    table = (case c_rates c of Some r \<Rightarrow> r | None \<Rightarrow> static_usd) \<and>
    map_of table (property_key (getCodeFromSymbol fromCurrency)) = Some fromRate \<and>
    fromRate \<noteq> 0 \<and>
    map_of table (property_key (getCodeFromSymbol toCurrency)) = Some toRate \<and> toRate \<noteq> 0
      \<longrightarrow> convertStatic c amt fromCurrency toCurrency = (amt / fromRate) * toRate)"
proof (intro conjI impI)
  assume "getCodeFromSymbol fromCurrency = getCodeFromSymbol toCurrency"
  then show "convertStatic c amt fromCurrency toCurrency = amt"
    by (simp add: convertStatic_def)
next
  assume a: "getCodeFromSymbol fromCurrency \<noteq> getCodeFromSymbol toCurrency \<and>
    table = (case c_rates c of Some r \<Rightarrow> r | None \<Rightarrow> static_usd) \<and>
    (rate_falsy (map_of table (property_key (getCodeFromSymbol fromCurrency))) \<or>
     rate_falsy (map_of table (property_key (getCodeFromSymbol toCurrency))))"
  then have "cross_rate table amt (getCodeFromSymbol fromCurrency) (getCodeFromSymbol toCurrency)
               = amt"
    by (cases "map_of table (property_key (getCodeFromSymbol fromCurrency))";
        cases "map_of table (property_key (getCodeFromSymbol toCurrency))")
       (auto simp: cross_rate_def Let_def)
  with a show "convertStatic c amt fromCurrency toCurrency = amt"
    by (simp add: convertStatic_def)
next
  assume "getCodeFromSymbol fromCurrency \<noteq> getCodeFromSymbol toCurrency \<and>
    table = (case c_rates c of Some r \<Rightarrow> r | None \<Rightarrow> static_usd) \<and>
    map_of table (property_key (getCodeFromSymbol fromCurrency)) = Some fromRate \<and>
    fromRate \<noteq> 0 \<and>
    map_of table (property_key (getCodeFromSymbol toCurrency)) = Some toRate \<and> toRate \<noteq> 0"
  then show "convertStatic c amt fromCurrency toCurrency = (amt / fromRate) * toRate"
    by (auto simp: convertStatic_def cross_rate_def Let_def)
qed

theorem convertStatic_cases_witness:
  "convertStatic empty_cache 100 (ascii ''$'') (ascii ''$'') = 100 \<and>
   convertStatic empty_cache 100 (ascii ''$'') (ascii ''XYZ'') = 100 \<and>
   convertStatic empty_cache 100 (ascii ''$'') euro_sign = (100 / 1) * (92 / 100)"
proof -
  have codes: "getCodeFromSymbol (ascii ''$'') = CodeText (ascii ''USD'')"
    "getCodeFromSymbol (ascii ''XYZ'') = CodeText (ascii ''XYZ'')"
    "getCodeFromSymbol euro_sign = CodeText (ascii ''EUR'')"
    by (simp_all add: getCodeFromSymbol_def symbol_defs)
  have keys: "property_key (CodeText (ascii ''USD'')) = ascii ''USD''"
    "property_key (CodeText (ascii ''XYZ'')) = ascii ''XYZ''"
    "property_key (CodeText (ascii ''EUR'')) = ascii ''EUR''"
    by (simp_all add: property_key_def)
  have table: "(case c_rates empty_cache of Some r \<Rightarrow> r | None \<Rightarrow> static_usd) = static_usd"
    by (simp add: empty_cache_def)
  have rates: "map_of static_usd (ascii ''USD'') = Some 1"
    "map_of static_usd (ascii ''XYZ'') = None"
    "map_of static_usd (ascii ''EUR'') = Some (92 / 100)"
    by (simp_all add: static_usd_def STATIC_RATES_def)
  show ?thesis
    using convertStatic_cases [of "ascii ''$''" "ascii ''$''" empty_cache 100 static_usd 1 1]
      convertStatic_cases [of "ascii ''$''" "ascii ''XYZ''" empty_cache 100 static_usd 1 1]
      convertStatic_cases [of "ascii ''$''" euro_sign empty_cache 100 static_usd 1 "92 / 100"]
    by (simp add: codes keys table rates)
qed

text \<open>
  The claim as stated fails where a rate is present and zero: with the cached table
  \<open>{USD: 1, EUR: 0}\<close> both codes have a rate, the cross rate of 100 dollars is
  \<open>(100 / 1) * 0 = 0\<close>, and \<open>convertStatic\<close> returns 100.
\<close>

theorem convertStatic_zero_rate_counterexample:
  "getCodeFromSymbol (ascii ''$'') = CodeText (ascii ''USD'') \<and>
   getCodeFromSymbol euro_sign = CodeText (ascii ''EUR'') \<and>
   c_rates cache_zero_rate = Some [(ascii ''USD'', 1), (ascii ''EUR'', 0)] \<and>
   map_of [(ascii ''USD'', 1), (ascii ''EUR'', 0 :: rat)] (ascii ''USD'') = Some 1 \<and>
   map_of [(ascii ''USD'', 1), (ascii ''EUR'', 0 :: rat)] (ascii ''EUR'') = Some 0 \<and>
   convertStatic cache_zero_rate 100 (ascii ''$'') euro_sign = 100 \<and>
   convertStatic cache_zero_rate 100 (ascii ''$'') euro_sign \<noteq> (100 / 1) * 0"
  by (simp add: convertStatic_def getCodeFromSymbol_def symbol_defs cache_zero_rate_def
      cross_rate_def property_key_def Let_def)

section \<open>Properties of the record store\<close>

lemma readData_cases:
  "readData P now s =
     (case parse_data s of
        Inr d \<Rightarrow> (Returned d, s)
      | Inl c \<Rightarrow> if c = SyntaxErr then (Returned empty_document, backupCorruptedFile P now s)
                 else (Thrown (ReadFailed c), s))"
  by (simp add: readData_def split: sum.splits cause.splits)




lemma parse_data_TypeErr:
  "parse_data s = Inl TypeErr
   \<longleftrightarrow> (\<exists>f. dataFile s = Some f \<and> readable s \<and> fsize f \<le> maxSize \<and> fbody f = Json JNull)"
  by (auto simp: parse_data_def split: option.splits body.splits jsontop.splits if_splits)





subsection \<open>Backup rotation\<close>

lemma newest_first_set [simp]: "set (newest_first bs) = set bs"
  by (simp add: newest_first_def)

lemma newest_first_length [simp]: "length (newest_first bs) = length bs"
  by (simp add: newest_first_def)

lemma newest_first_mset: "mset (newest_first bs) = mset bs"
  by (simp add: newest_first_def)

lemma insort_newest:
  "\<forall>x \<in> set xs. f m < f x \<Longrightarrow> foldr (insort_key f) xs [m] = m # foldr (insort_key f) xs []"
  by (induction xs) auto

lemma newest_first_snoc:
  assumes "\<forall>g \<in> set G. b_mtime g < b_mtime A"
  shows "newest_first (G @ [A]) = A # newest_first G"
  using assms
  by (simp add: newest_first_def sort_key_def insort_newest)

text \<open>With the directory writable and no backup locked, every unlink succeeds.\<close>

lemma delete_old_unlocked:
  assumes "\<forall>b \<in> set bs. \<not> b_locked b"
  shows "delete_old True bs =
           (if length bs \<ge> 3
            then filter (\<lambda>b. b_name b \<notin> set (map b_name (drop 2 (newest_first bs)))) bs
            else bs)"
  using assms by (auto simp: delete_old_def Let_def intro!: filter_cong)

lemma delete_old_subset: "set (delete_old w bs) \<subseteq> set bs"
  by (auto simp: delete_old_def Let_def)

lemma delete_old_all: "\<forall>b \<in> set bs. Q b \<Longrightarrow> \<forall>b \<in> set (delete_old w bs). Q b"
  using delete_old_subset [of w bs] by blast

lemma delete_old_length:
  assumes "\<forall>b \<in> set bs. \<not> b_locked b"
  shows "length (delete_old True bs) \<le> 2"
proof (cases "length bs \<ge> 3")
  case False
  then show ?thesis by (simp add: delete_old_unlocked [OF assms])
next
  case True
  define P where "P = (\<lambda>b::backup. b_name b \<notin> set (map b_name (drop 2 (newest_first bs))))"
  have "mset bs = mset (take 2 (newest_first bs)) + mset (drop 2 (newest_first bs))"
    by (metis append_take_drop_id mset_append newest_first_mset)
  then have "filter_mset P (mset bs)
      = filter_mset P (mset (take 2 (newest_first bs)))
        + filter_mset P (mset (drop 2 (newest_first bs)))"
    by simp
  moreover have "filter_mset P (mset (drop 2 (newest_first bs))) = {#}"
    by (auto simp: P_def)
  ultimately have eq: "filter_mset P (mset bs) = filter_mset P (mset (take 2 (newest_first bs)))"
    by simp
  have "length (filter P bs) = size (filter_mset P (mset bs))"
    by (simp flip: mset_filter)
  also have "\<dots> \<le> size (mset (take 2 (newest_first bs)))"
    unfolding eq by (rule size_filter_mset_lesseq)
  also have "\<dots> \<le> 2"
    by simp
  finally have "length (filter P bs) \<le> 2" .
  with True show ?thesis by (simp add: delete_old_unlocked [OF assms] P_def)
qed

lemma delete_old_snoc:
  assumes "\<forall>g \<in> set G. b_mtime g < b_mtime A \<and> b_name g \<noteq> b_name A"
    and "\<forall>b \<in> set (G @ [A]). \<not> b_locked b"
  shows "\<exists>G'. delete_old True (G @ [A]) = G' @ [A] \<and> set G' \<subseteq> set G"
proof (cases "length (G @ [A]) \<ge> 3")
  case False
  then show ?thesis by (auto simp: delete_old_unlocked [OF assms(2)])
next
  case True
  have nf: "newest_first (G @ [A]) = A # newest_first G"
    using assms by (intro newest_first_snoc) simp
  have "b_name A \<notin> set (map b_name (drop 2 (newest_first (G @ [A]))))"
    using assms by (auto simp: nf dest!: in_set_dropD)
  with True show ?thesis
    by (auto simp: delete_old_unlocked [OF assms(2)])
qed

lemma delete_old_two:
  assumes "\<forall>g \<in> set G. b_mtime g < b_mtime A \<and> b_name g \<noteq> b_name A \<and> b_name g \<noteq> b_name B"
    and "b_mtime A < b_mtime B" and "b_name A \<noteq> b_name B"
    and unlocked: "\<forall>b \<in> set (G @ [A, B]). \<not> b_locked b"
  shows "delete_old True (G @ [A, B]) = [A, B]"
proof (cases G)
  case Nil
  then show ?thesis by (simp add: delete_old_def Let_def)
next
  case (Cons g G0)
  have "newest_first ((G @ [A]) @ [B]) = B # newest_first (G @ [A])"
    using assms by (intro newest_first_snoc) auto
  moreover have "newest_first (G @ [A]) = A # newest_first G"
    using assms by (intro newest_first_snoc) auto
  ultimately have nf: "newest_first (G @ [A, B]) = B # A # newest_first G"
    by simp
  have len: "length (G @ [A, B]) \<ge> 3"
    using Cons by simp
  have "delete_old True (G @ [A, B])
          = filter (\<lambda>b. b_name b \<notin> b_name ` set G) (G @ [A, B])"
    unfolding delete_old_unlocked [OF unlocked] using len by (simp add: nf)
  also have "\<dots> = filter (\<lambda>b. b_name b \<notin> b_name ` set G) G
                   @ filter (\<lambda>b. b_name b \<notin> b_name ` set G) [A, B]"
    by simp
  also have "filter (\<lambda>b. b_name b \<notin> b_name ` set G) G = []"
    by (auto simp: filter_empty_conv)
  also have "filter (\<lambda>b. b_name b \<notin> b_name ` set G) [A, B] = [A, B]"
    using assms(1) by auto
  finally show ?thesis by simp
qed

text \<open>What a call of \<open>writeData\<close> that returns leaves: the flags as they were.\<close>

lemma writeData_flags:
  assumes "writeData P now data s = (r, s')"
  shows "readable s' = readable s" "writable s' = writable s" "listable s' = listable s"
  using assms
  by (auto simp: writeData_def rotateBackups_def cleanup_temp_def Let_def
      split: if_splits option.splits)

lemma writeData_success:
  assumes "writeData P now data s = (Returned u, s')"
  shows "dataFile s' \<noteq> None" "writable s"
    and "backups s' = (case dataFile s of None \<Rightarrow> backups s
                       | Some f \<Rightarrow> backups (rotateBackups now s))"
  using assms
  by (auto simp: writeData_def rotateBackups_def Let_def split: if_splits option.splits)

text \<open>A rotation that runs to its end: the listing and every stat succeed, and no
  backup is locked.\<close>

lemma writeData_rotation:
  assumes w: "writeData P now data s = (Returned u, s')"
    and live: "dataFile s = Some f"
    and listing: "listable s"
    and ok: "\<forall>b \<in> set (backups s). b_statable b \<and> \<not> b_locked b"
  shows "backups s' = filter (\<lambda>b. b_name b \<noteq> now) (delete_old True (backups s))
                      @ [\<lparr>b_name = now, b_mtime = now, b_file = f,
                          b_statable = True, b_locked = False\<rparr>]"
proof -
  have stat: "list_all b_statable (backups s)"
    using ok by (simp add: list_all_iff)
  have "\<forall>b \<in> set (delete_old True (backups s)). \<not> b_locked b"
    using ok delete_old_subset [of True "backups s"] by blast
  then have free: "list_all (\<lambda>b. if b_name b = now then \<not> b_locked b else True)
                     (delete_old True (backups s))"
    by (simp add: list_all_iff)
  from w live have "writable s" "readable s"
    by (auto simp: writeData_def rotateBackups_def Let_def split: if_splits)
  with w live listing stat free show ?thesis
    by (auto simp: writeData_def rotateBackups_def Let_def split: if_splits)
qed

lemma writeData_keeps_ok:
  assumes w: "writeData P now data s = (Returned u, s')"
    and ok: "\<forall>b \<in> set (backups s). b_statable b \<and> \<not> b_locked b"
  shows "\<forall>b \<in> set (backups s'). b_statable b \<and> \<not> b_locked b"
  using w ok delete_old_all [OF ok, of "writable s"]
  by (auto simp: writeData_def rotateBackups_def Let_def split: if_splits option.splits)

lemma writeData_length:
  assumes "writeData P now data s = (Returned u, s')" "dataFile s \<noteq> None" "listable s"
    and ok: "\<forall>b \<in> set (backups s). b_statable b \<and> \<not> b_locked b"
  shows "length (backups s') \<le> 3"
proof -
  from assms obtain f where f: "dataFile s = Some f" by auto
  have "length (filter (\<lambda>b. b_name b \<noteq> now) (delete_old True (backups s)))
          \<le> length (delete_old True (backups s))"
    by (rule length_filter_le)
  also have "\<dots> \<le> 2"
    using ok by (intro delete_old_length) simp
  finally show ?thesis
    using writeData_rotation [OF assms(1) f assms(3) ok] by simp
qed

lemma successive_writes_length:
  "dataFile s \<noteq> None \<Longrightarrow> listable s
   \<Longrightarrow> \<forall>b \<in> set (backups s). b_statable b \<and> \<not> b_locked b
   \<Longrightarrow> ws \<noteq> [] \<Longrightarrow> successive_writes P ws s = (Returned u, s')
   \<Longrightarrow> length (backups s') \<le> 3 \<and> dataFile s' \<noteq> None"
proof (induction ws arbitrary: s)
  case Nil
  then show ?case by simp
next
  case (Cons w ws)
  obtain now data where w: "w = (now, data)" by (cases w)
  from Cons.prems(5) obtain s1 where
    s1: "writeData P now data s = (Returned (), s1)" and
    rest: "successive_writes P ws s1 = (Returned u, s')"
    by (auto simp: w split: prod.splits result.splits)
  show ?case
  proof (cases ws)
    case Nil
    with rest have "s' = s1" by simp
    with writeData_length [OF s1 Cons.prems(1,2,3)] writeData_success(1) [OF s1]
    show ?thesis by simp
  next
    case (Cons w' ws')
    then show ?thesis
      using Cons.IH [OF writeData_success(1) [OF s1] _ writeData_keeps_ok [OF s1 Cons.prems(3)] _ rest]
        writeData_flags(3) [OF s1] Cons.prems(2)
      by simp
  qed
qed

lemma successive_writes_bounded:
  assumes "length ws \<ge> 2" "successive_writes P ws s = (Returned u, s')" "listable s"
    and ok: "\<forall>b \<in> set (backups s). b_statable b \<and> \<not> b_locked b"
  shows "length (backups s') \<le> 3"
proof -
  from assms(1) obtain w ws' where ws: "ws = w # ws'" "ws' \<noteq> []"
    by (cases ws; cases "tl ws") auto
  obtain now data where w: "w = (now, data)" by (cases w)
  from assms(2) obtain s1 where
    s1: "writeData P now data s = (Returned (), s1)" and
    rest: "successive_writes P ws' s1 = (Returned u, s')"
    by (auto simp: ws w split: prod.splits result.splits)
  have "listable s1"
    using writeData_flags(3) [OF s1] assms(3) by simp
  from successive_writes_length [OF writeData_success(1) [OF s1] this
      writeData_keeps_ok [OF s1 ok] ws(2) rest]
  show ?thesis by simp
qed

lemma writeData_backups_subset:
  assumes "writeData P now data s = (Returned u, s')"
  shows "\<forall>b \<in> set (backups s'). b \<in> set (backups s) \<or> (b_name b = now \<and> b_mtime b = now)"
  using assms delete_old_subset [of "writable s" "backups s"]
  by (auto simp: writeData_def rotateBackups_def Let_def split: if_splits option.splits)

lemma writeData_mtime:
  assumes "writeData P now data s = (Returned u, s')"
    and "\<forall>b \<in> set (backups s). b_mtime b \<le> now"
  shows "\<forall>b \<in> set (backups s'). b_mtime b \<le> now"
  using assms(2) writeData_backups_subset [OF assms(1)] by auto

lemma successive_writes_mtime:
  "ws \<noteq> [] \<Longrightarrow> sorted_wrt (<) (map fst ws)
   \<Longrightarrow> \<forall>b \<in> set (backups s). \<forall>w \<in> set ws. b_mtime b \<le> fst w
   \<Longrightarrow> successive_writes P ws s = (Returned u, s')
   \<Longrightarrow> (\<forall>b \<in> set (backups s'). b_mtime b \<le> fst (last ws)) \<and> dataFile s' \<noteq> None"
proof (induction ws arbitrary: s)
  case Nil
  then show ?case by simp
next
  case (Cons w ws)
  obtain now data where w: "w = (now, data)" by (cases w)
  from Cons.prems(4) obtain s1 where
    s1: "writeData P now data s = (Returned (), s1)" and
    rest: "successive_writes P ws s1 = (Returned u, s')"
    by (auto simp: w split: prod.splits result.splits)
  have m1: "\<forall>b \<in> set (backups s1). b_mtime b \<le> now"
    using Cons.prems(3) by (intro writeData_mtime [OF s1]) (simp add: w)
  show ?case
  proof (cases ws)
    case Nil
    with rest have "s' = s1" by simp
    with m1 writeData_success(1) [OF s1] Nil show ?thesis by (simp add: w)
  next
    case (Cons w' ws')
    have "\<forall>b \<in> set (backups s1). \<forall>x \<in> set ws. b_mtime b \<le> fst x"
      using m1 Cons.prems(2) by (fastforce simp: w)
    moreover have "sorted_wrt (<) (map fst ws)"
      using Cons.prems(2) by simp
    ultimately show ?thesis
      using Cons.IH [OF _ _ _ rest] Cons by simp
  qed
qed

lemma successive_writes_keep:
  "successive_writes P ws s = (Returned u, s')
   \<Longrightarrow> \<forall>b \<in> set (backups s). b_statable b \<and> \<not> b_locked b
   \<Longrightarrow> listable s' = listable s \<and> (\<forall>b \<in> set (backups s'). b_statable b \<and> \<not> b_locked b)"
proof (induction ws arbitrary: s)
  case Nil
  then show ?case by simp
next
  case (Cons w ws)
  obtain now data where w: "w = (now, data)" by (cases w)
  from Cons.prems(1) obtain s1 where
    s1: "writeData P now data s = (Returned (), s1)" and
    rest: "successive_writes P ws s1 = (Returned u, s')"
    by (auto simp: w split: prod.splits result.splits)
  from Cons.IH [OF rest writeData_keeps_ok [OF s1 Cons.prems(2)]] writeData_flags(3) [OF s1]
  show ?case by simp
qed

lemma successive_writes_append:
  "successive_writes P (xs @ ys) s =
     (case successive_writes P xs s of
        (Thrown e, s') \<Rightarrow> (Thrown e, s')
      | (Returned u, s') \<Rightarrow> successive_writes P ys s')"
  by (induction xs arbitrary: s) (auto split: prod.splits result.splits)

lemma three_writes:
  assumes live: "dataFile s \<noteq> None"
    and listing: "listable s"
    and ok: "\<forall>x \<in> set (backups s). b_statable x \<and> \<not> b_locked x"
    and old: "\<forall>x \<in> set (backups s). b_mtime x < a"
    and order: "a < b" "b < c"
    and run: "successive_writes P [(a, da), (b, db), (c, dc)] s = (Returned u, s')"
  shows "map b_name (backups s') = [a, b, c] \<and> map b_mtime (backups s') = [a, b, c]"
proof -
  from run obtain s1 s2 where
    w1: "writeData P a da s = (Returned (), s1)" and
    w2: "writeData P b db s1 = (Returned (), s2)" and
    w3: "writeData P c dc s2 = (Returned (), s')"
    by (auto split: prod.splits result.splits)
  from live obtain f0 where f0: "dataFile s = Some f0" by auto
  from writeData_success(1) [OF w1] obtain f1 where f1: "dataFile s1 = Some f1" by auto
  from writeData_success(1) [OF w2] obtain f2 where f2: "dataFile s2 = Some f2" by auto
  have l1: "listable s1" and l2: "listable s2"
    using writeData_flags(3) [OF w1] writeData_flags(3) [OF w2] listing by simp_all
  have ok1: "\<forall>x \<in> set (backups s1). b_statable x \<and> \<not> b_locked x"
    by (rule writeData_keeps_ok [OF w1 ok])
  have ok2: "\<forall>x \<in> set (backups s2). b_statable x \<and> \<not> b_locked x"
    by (rule writeData_keeps_ok [OF w2 ok1])
  define A where "A = \<lparr>b_name = a, b_mtime = a, b_file = f0, b_statable = True, b_locked = False\<rparr>"
  define B where "B = \<lparr>b_name = b, b_mtime = b, b_file = f1, b_statable = True, b_locked = False\<rparr>"
  define C where "C = \<lparr>b_name = c, b_mtime = c, b_file = f2, b_statable = True, b_locked = False\<rparr>"
  have [simp]: "b_name A = a" "b_mtime A = a" "b_name B = b" "b_mtime B = b"
    "b_name C = c" "b_mtime C = c"
    by (simp_all add: A_def B_def C_def)
  define F where "F = filter (\<lambda>x. b_name x \<noteq> a) (delete_old True (backups s))"
  have S1: "backups s1 = F @ [A]"
    using writeData_rotation [OF w1 f0 listing ok] by (simp add: F_def A_def)
  have F: "\<forall>g \<in> set F. b_mtime g < b_mtime A \<and> b_name g \<noteq> b_name A"
    using old delete_old_subset [of True "backups s"] by (auto simp: F_def)
  have okF: "\<forall>x \<in> set (F @ [A]). \<not> b_locked x"
    using ok1 by (simp add: S1)
  from delete_old_snoc [OF F okF] obtain G where
    G: "delete_old True (F @ [A]) = G @ [A]" "set G \<subseteq> set F"
    by blast
  define G' where "G' = filter (\<lambda>x. b_name x \<noteq> b) G"
  have S2: "backups s2 = G' @ [A, B]"
    using writeData_rotation [OF w2 f1 l1 ok1] order
    by (simp add: S1 G G'_def B_def)
  have G': "\<forall>g \<in> set G'. b_mtime g < b_mtime A \<and> b_name g \<noteq> b_name A \<and> b_name g \<noteq> b_name B"
    using F G(2) by (auto simp: G'_def)
  have okG: "\<forall>x \<in> set (G' @ [A, B]). \<not> b_locked x"
    using ok2 by (simp add: S2)
  have "delete_old True (G' @ [A, B]) = [A, B]"
    using order by (intro delete_old_two [OF G' _ _ okG]) simp_all
  then have "backups s' = [A, B, C]"
    using writeData_rotation [OF w3 f2 l2 ok2] order
    by (simp add: S2 C_def)
  then show ?thesis by simp
qed

lemma last_three:
  assumes "length ws \<ge> 4"
  shows "\<exists>ws0 wa wb wc. ws = ws0 @ [wa, wb, wc] \<and> ws0 \<noteq> [] \<and>
           drop (length ws - 3) ws = [wa, wb, wc]"
proof -
  define ws0 where "ws0 = take (length ws - 3) ws"
  define t where "t = drop (length ws - 3) ws"
  have "length t = 3"
    using assms unfolding t_def by simp
  then obtain wa t1 where t1: "t = wa # t1" "length t1 = 2"
    by (cases t) simp_all
  then obtain wb t2 where t2: "t1 = wb # t2" "length t2 = 1"
    by (cases t1) simp_all
  then obtain wc where "t2 = [wc]"
    by (cases t2) simp_all
  with t1 t2 have t: "t = [wa, wb, wc]"
    by simp
  have split: "ws = ws0 @ t"
    unfolding ws0_def t_def by simp
  have "length ws0 = length ws - 3"
    unfolding ws0_def by simp
  with assms have "ws0 \<noteq> []"
    by (cases ws0) simp_all
  with split t show ?thesis
    unfolding t_def [symmetric] by (intro exI [of _ ws0] exI [of _ wa] exI [of _ wb] exI [of _ wc]) simp
qed

lemma successive_writes_most_recent:
  assumes len: "length ws \<ge> 4"
    and run: "successive_writes P ws s = (Returned u, s')"
    and listing: "listable s"
    and ok: "\<forall>x \<in> set (backups s). b_statable x \<and> \<not> b_locked x"
    and clock: "sorted_wrt (<) (map fst ws)"
    and old: "\<forall>x \<in> set (backups s). \<forall>w \<in> set ws. b_mtime x \<le> fst w"
  shows "map b_name (backups s') = map fst (drop (length ws - 3) ws) \<and>
         map b_mtime (backups s') = map fst (drop (length ws - 3) ws)"
proof -
  from last_three [OF len] obtain ws0 wa wb wc where
    ws: "ws = ws0 @ [wa, wb, wc]" "ws0 \<noteq> []" "drop (length ws - 3) ws = [wa, wb, wc]"
    by blast
  from run obtain s0 where
    r0: "successive_writes P ws0 s = (Returned (), s0)" and
    r1: "successive_writes P [wa, wb, wc] s0 = (Returned u, s')"
    by (auto simp: ws(1) successive_writes_append split: prod.splits result.splits)
  have c0: "sorted_wrt (<) (map fst ws0)"
    and lt: "fst (last ws0) < fst wa" "fst wa < fst wb" "fst wb < fst wc"
    using clock ws(2) by (auto simp: ws(1) sorted_wrt_append)
  have "\<forall>x \<in> set (backups s). \<forall>w \<in> set ws0. b_mtime x \<le> fst w"
    using old by (simp add: ws(1))
  from successive_writes_mtime [OF ws(2) c0 this r0]
  have m0: "\<forall>x \<in> set (backups s0). b_mtime x < fst wa" and d0: "dataFile s0 \<noteq> None"
    using lt(1) by auto
  from successive_writes_keep [OF r0 ok] listing
  have l0: "listable s0" and ok0: "\<forall>x \<in> set (backups s0). b_statable x \<and> \<not> b_locked x"
    by simp_all
  obtain a da b db c dc where w: "wa = (a, da)" "wb = (b, db)" "wc = (c, dc)"
    by (cases wa, cases wb, cases wc) auto
  from three_writes [OF d0 l0 ok0, of a b c P da db dc u s'] m0 lt r1
  show ?thesis by (simp add: w ws(3))
qed

lemma newest_first_sorted:
  "sorted (map (\<lambda>b. - int (b_mtime b)) (newest_first bs))"
  by (simp add: newest_first_def)

lemma newest_first_take_drop:
  assumes "k \<in> set (take n (newest_first bs))" "x \<in> set (drop n (newest_first bs))"
  shows "b_mtime x \<le> b_mtime k"
proof -
  have "sorted (map (\<lambda>b. - int (b_mtime b)) (take n (newest_first bs))
                @ map (\<lambda>b. - int (b_mtime b)) (drop n (newest_first bs)))"
    using newest_first_sorted [of bs] by (simp flip: map_append)
  with assms have "- int (b_mtime k) \<le> - int (b_mtime x)"
    by (auto simp: sorted_append)
  then show ?thesis by simp
qed

text \<open>A backup removed by the rotation is no newer than a backup the rotation keeps
  and could have removed.\<close>

lemma delete_old_oldest:
  assumes names: "distinct (map b_name bs)"
    and x: "x \<in> set bs" "b_name x \<notin> set (map b_name (delete_old w bs))"
    and k: "k \<in> set (delete_old w bs)" "\<not> b_locked k"
  shows "b_mtime x \<le> b_mtime k"
proof -
  from x have xn: "x \<notin> set (delete_old w bs)"
    by auto
  with x(1) have long: "length bs \<ge> 3" and w: "w" and xu: "\<not> b_locked x"
    by (auto simp: delete_old_def Let_def split: if_splits)
  with xn x(1) obtain y where y: "y \<in> set (drop 2 (newest_first bs))" "b_name y = b_name x"
    by (auto simp: delete_old_def Let_def)
  then have "y \<in> set bs"
    by (metis in_set_dropD newest_first_set)
  with names x(1) y(2) have "y = x"
    by (meson distinct_map inj_onD)
  with y have xd: "x \<in> set (drop 2 (newest_first bs))" by simp
  from k long w have "k \<in> set bs" "b_name k \<notin> set (map b_name (drop 2 (newest_first bs)))"
    by (auto simp: delete_old_def Let_def)
  then have "k \<in> set (take 2 (newest_first bs))"
    by (metis (no_types, lifting) Un_iff append_take_drop_id image_eqI list.set_map
        newest_first_set set_append)
  from newest_first_take_drop [OF this xd] show ?thesis .
qed

lemma writeData_deletes_oldest:
  assumes w: "writeData P now data s = (Returned u, s1)"
    and names: "distinct (map b_name (backups s))"
    and x: "x \<in> set (backups s)" "b_name x \<notin> set (map b_name (backups s1))"
    and k: "k \<in> set (backups s1)" "b_name k \<noteq> now" "\<not> b_locked k"
  shows "b_mtime x \<le> b_mtime k"
proof -
  have sub: "set (backups s1) \<subseteq> set (delete_old (writable s) (backups s))
               \<union> {b. b_name b = now}"
    and sup: "b_name ` set (delete_old (writable s) (backups s)) \<subseteq> b_name ` set (backups s1)"
    using w x
    by (auto simp: writeData_def rotateBackups_def Let_def image_iff
        split: if_splits option.splits)
  from k sub have kk: "k \<in> set (delete_old (writable s) (backups s))"
    by auto
  from x(2) sup have xx: "b_name x \<notin> set (map b_name (delete_old (writable s) (backups s)))"
    by auto
  from delete_old_oldest [OF names x(1) xx kk k(3)] show ?thesis .
qed

text \<open>
  C9 (amended). After four or more successive successful calls of \<open>writeData\<close>, from
  any state of the files in which the directory can be listed, every backup can be
  stat'ed and no backup is locked, at most three timestamped backups exist. They are
  the most recent ones in the order of modification times: a call removes a backup
  only if it is no newer than every earlier backup the call keeps and could have
  removed (in a directory, where names are distinct). And when the clock increases
  from call to call and no backup present at the start is dated after the first call,
  the backups left are exactly the three made by the last three calls, each named and
  dated by the clock of its call. A failure inside the rotation is swallowed: whether
  the write returns, and the error it throws, depend neither on the listing nor on
  the backups.
\<close>

theorem backup_rotation_bound:
  "(length ws \<ge> 4 \<and> successive_writes P ws s = (Returned (), s') \<and> listable s \<and>
    (\<forall>b \<in> set (backups s). b_statable b \<and> \<not> b_locked b)
      \<longrightarrow> length (backups s') \<le> 3) \<and>
   (writeData P now data s = (Returned (), s1) \<and>
    distinct (map b_name (backups s)) \<and>
    x \<in> set (backups s) \<and> b_name x \<notin> set (map b_name (backups s1)) \<and>
    k \<in> set (backups s1) \<and> b_name k \<noteq> now \<and> \<not> b_locked k
      \<longrightarrow> b_mtime x \<le> b_mtime k) \<and>
   (length ws \<ge> 4 \<and> successive_writes P ws s = (Returned (), s') \<and> listable s \<and>
    (\<forall>b \<in> set (backups s). b_statable b \<and> \<not> b_locked b) \<and>
    sorted_wrt (<) (map fst ws) \<and>
    (\<forall>b \<in> set (backups s). \<forall>w \<in> set ws. b_mtime b \<le> fst w)
      \<longrightarrow> map b_name (backups s') = map fst (drop (length ws - 3) ws) \<and>
          map b_mtime (backups s') = map fst (drop (length ws - 3) ws)) \<and>
   fst (writeData P now data (s\<lparr>backups := bs, listable := l\<rparr>)) = fst (writeData P now data s)"
proof (intro conjI impI)
  assume "length ws \<ge> 4 \<and> successive_writes P ws s = (Returned (), s') \<and> listable s \<and>
    (\<forall>b \<in> set (backups s). b_statable b \<and> \<not> b_locked b)"
  then show "length (backups s') \<le> 3"
    using successive_writes_bounded [of ws P s "()" s'] by simp
next
  assume "writeData P now data s = (Returned (), s1) \<and>
    distinct (map b_name (backups s)) \<and>
    x \<in> set (backups s) \<and> b_name x \<notin> set (map b_name (backups s1)) \<and>
    k \<in> set (backups s1) \<and> b_name k \<noteq> now \<and> \<not> b_locked k"
  then show "b_mtime x \<le> b_mtime k"
    using writeData_deletes_oldest [of P now data s "()" s1 x k] by blast
next
  assume a: "length ws \<ge> 4 \<and> successive_writes P ws s = (Returned (), s') \<and> listable s \<and>
    (\<forall>b \<in> set (backups s). b_statable b \<and> \<not> b_locked b) \<and>
    sorted_wrt (<) (map fst ws) \<and>
    (\<forall>b \<in> set (backups s). \<forall>w \<in> set ws. b_mtime b \<le> fst w)"
  then show "map b_name (backups s') = map fst (drop (length ws - 3) ws)"
    and "map b_mtime (backups s') = map fst (drop (length ws - 3) ws)"
    using successive_writes_most_recent [of ws P s "()" s'] by blast+
next
  show "fst (writeData P now data (s\<lparr>backups := bs, listable := l\<rparr>))
          = fst (writeData P now data s)"
    by (simp add: writeData_def rotateBackups_def cleanup_temp_def Let_def split: option.splits)
qed

lemmas rotation_eval_defs =
  five_writes_def stale_backups_def rotation_start_def locked_backups_def locked_start_def
  store_with_def writeData_def rotateBackups_def delete_old_def newest_first_def
  platform_utc_def sample_byteLength_def document_json_def empty_document_def maxSize_def
  Let_def

theorem backup_rotation_bound_witness:
  "length (backups (snd (successive_writes platform_utc five_writes rotation_start))) \<le> 3 \<and>
   map b_name (backups (snd (successive_writes platform_utc five_writes rotation_start)))
     = [30, 40, 50] \<and>
   map b_mtime (backups (snd (successive_writes platform_utc five_writes rotation_start)))
     = [30, 40, 50] \<and>
   b_mtime \<lparr>b_name = 4, b_mtime = 2, b_file = garbage_file, b_statable = True, b_locked = False\<rparr>
     \<le> b_mtime \<lparr>b_name = 3, b_mtime = 3, b_file = garbage_file, b_statable = True,
               b_locked = False\<rparr>"
proof -
  have run: "successive_writes platform_utc five_writes rotation_start
               = (Returned (), snd (successive_writes platform_utc five_writes rotation_start))"
    by (simp add: rotation_eval_defs)
  have len: "length five_writes \<ge> 4" and clock: "sorted_wrt (<) (map fst five_writes)"
    and old: "\<forall>b \<in> set (backups rotation_start). \<forall>w \<in> set five_writes. b_mtime b \<le> fst w"
    and lt: "map fst (drop (length five_writes - 3) five_writes) = [30, 40, 50]"
    and listing: "listable rotation_start"
    and ok: "\<forall>b \<in> set (backups rotation_start). b_statable b \<and> \<not> b_locked b"
    by (simp_all add: five_writes_def rotation_start_def stale_backups_def store_with_def)
  have one: "writeData platform_utc 10 (document_json empty_document) rotation_start
               = (Returned (), snd (writeData platform_utc 10 (document_json empty_document)
                                      rotation_start))"
    and names: "distinct (map b_name (backups rotation_start))"
    and x: "\<lparr>b_name = 4, b_mtime = 2, b_file = garbage_file, b_statable = True,
             b_locked = False\<rparr> \<in> set (backups rotation_start)"
      "b_name \<lparr>b_name = 4, b_mtime = 2, b_file = garbage_file, b_statable = True,
               b_locked = False\<rparr>
         \<notin> set (map b_name (backups (snd (writeData platform_utc 10
               (document_json empty_document) rotation_start))))"
    and k: "\<lparr>b_name = 3, b_mtime = 3, b_file = garbage_file, b_statable = True,
             b_locked = False\<rparr>
         \<in> set (backups (snd (writeData platform_utc 10 (document_json empty_document)
               rotation_start)))"
      "b_name \<lparr>b_name = 3, b_mtime = 3, b_file = garbage_file, b_statable = True,
               b_locked = False\<rparr> \<noteq> 10"
      "\<not> b_locked \<lparr>b_name = 3, b_mtime = 3, b_file = garbage_file, b_statable = True,
                    b_locked = False\<rparr>"
    by (simp_all add: rotation_eval_defs)
  show ?thesis
    using backup_rotation_bound
        [where ws = five_writes and P = platform_utc and s = rotation_start
           and s' = "snd (successive_writes platform_utc five_writes rotation_start)"
           and now = 10 and data = "document_json empty_document"
           and ?s1.0 = "snd (writeData platform_utc 10 (document_json empty_document)
                               rotation_start)"
           and x = "\<lparr>b_name = 4, b_mtime = 2, b_file = garbage_file, b_statable = True,
                      b_locked = False\<rparr>"
           and k = "\<lparr>b_name = 3, b_mtime = 3, b_file = garbage_file, b_statable = True,
                      b_locked = False\<rparr>"
           and bs = "[]" and l = True]
      run len clock old lt listing ok one names x k
    by simp
qed

text \<open>
  The claim as stated fails from a state in which the rotation cannot do its work.
  With three backups of which the oldest is locked, five successive writes all return
  and leave four backups, the locked one among them. With a directory that cannot be
  listed, five successive writes all return, make no backup and remove none of the
  four that were there.
\<close>

theorem backup_rotation_locked_counterexample:
  "length five_writes = 5 \<and>
   map b_name (backups locked_start) = [1, 2, 3] \<and>
   fst (successive_writes platform_utc five_writes locked_start) = Returned () \<and>
   map b_name (backups (snd (successive_writes platform_utc five_writes locked_start)))
     = [1, 30, 40, 50] \<and>
   length (backups (snd (successive_writes platform_utc five_writes locked_start))) = 4 \<and>
   fst (successive_writes platform_utc five_writes (rotation_start\<lparr>listable := False\<rparr>))
     = Returned () \<and>
   map b_name (backups (snd (successive_writes platform_utc five_writes
                               (rotation_start\<lparr>listable := False\<rparr>))))
     = [1, 2, 3, 4]"
  by (simp add: rotation_eval_defs)

section \<open>Properties of the transaction service\<close>































lemma find_by_id_is_SomeD:
  "find_by (id_is i) es = Returned (Some x) \<Longrightarrow> j_id x = Str i \<and> Rec x \<in> set es"
proof (induction es)
  case Nil
  then show ?case by simp
next
  case (Cons a es)
  then show ?case
    by (cases a) (auto simp: id_is_def strict_eq_def absent_def split: if_splits bool.splits)
qed

lemma getExpenseById_SomeD:
  "getExpenseById P now i s = (Returned (Some old), s1)
   \<Longrightarrow> s1 = s \<and> j_id old = Str i \<and>
       (\<exists>d. parse_data s = Inr d \<and> find_by (id_is i) (expenses d) = Returned (Some old))"
  by (auto simp: getExpenseById_def getExpenses_def readData_cases empty_document_def
      split: sum.splits if_splits dest: find_by_id_is_SomeD)

lemma category_errors_outside:
  "c \<notin> Str ` set EXPENSE_CATEGORIES
   \<Longrightarrow> category_errors c
         \<in> {[ascii ''Category is required''], [ascii ''Category must be a string''],
            [ascii ''Invalid category. Must be one of: ''
             @ join (ascii '', '') EXPENSE_CATEGORIES]}"
  by (cases c) (auto simp: category_errors_def)

text \<open>
  C6. For a stored Expense, \<open>updateExpense\<close> validates the whole value rebuilt from
  the stored object and the updates, and writes nothing unless it is valid: when the
  rebuilt value is invalid, whatever the field at fault, the result is a failure
  whose message is the joined list of all its violations and the files are as
  before, the stored record being the one found before; only a valid rebuilt value
  is handed to the record store. In particular an update that carries a category
  outside the fixed enumeration is rejected, the category message standing last in
  the list.
\<close>

theorem updateExpense_rejects_category_outside_enumeration:
  assumes "getExpenseById P now i s = (Returned (Some old), s1)"
  shows "(u_category u \<noteq> Undefined \<and> u_category u \<notin> Str ` set EXPENSE_CATEGORIES
            \<longrightarrow> updateExpense P now uuid i u s
                  = (Returned (failure (Msg (join (ascii '', '')
                       (errors (Transaction_validate (rebuilt_Expense P now uuid old u))
                        @ category_errors (u_category u))))), s) \<and>
                category_errors (u_category u)
                  \<in> {[ascii ''Category is required''], [ascii ''Category must be a string''],
                     [ascii ''Invalid category. Must be one of: ''
                      @ join (ascii '', '') EXPENSE_CATEGORIES]}) \<and>
         (\<not> isValid (Expense_validate (rebuilt_Expense P now uuid old u))
            \<longrightarrow> updateExpense P now uuid i u s
                  = (Returned (failure (Msg (join (ascii '', '')
                       (errors (Expense_validate (rebuilt_Expense P now uuid old u)))))), s)) \<and>
         (isValid (Expense_validate (rebuilt_Expense P now uuid old u))
            \<longrightarrow> updateExpense P now uuid i u s
                  = (case store_updateExpense P now i
                            (Expense_toJSON (rebuilt_Expense P now uuid old u)) s of
                       (Thrown e, s2) \<Rightarrow> (Returned (failure (Failed ''update expense'' e)), s2)
                     | (Returned b, s2) \<Rightarrow>
                         (Returned \<lparr>success = True,
                                    message = Msg (ascii ''Expense updated successfully''),
                                    payload = Some (Expense_toJSON
                                      (rebuilt_Expense P now uuid old u))\<rparr>, s2))) \<and>
         (snd (updateExpense P now uuid i u s) \<noteq> s
            \<longrightarrow> isValid (Expense_validate (rebuilt_Expense P now uuid old u))) \<and>
         s1 = s \<and>
         getExpenseById P now' i s = (Returned (Some old), s)"
proof -
  from assms have s1: "s1 = s"
    and old: "\<exists>d. parse_data s = Inr d \<and> find_by (id_is i) (expenses d) = Returned (Some old)"
    using getExpenseById_SomeD by blast+
  from old have again: "getExpenseById P now' i s = (Returned (Some old), s)"
    by (auto simp: getExpenseById_def getExpenses_def readData_cases)
  define r where "r = rebuilt_Expense P now uuid old u"
  have invalid: "updateExpense P now uuid i u s
                   = (Returned (failure (Msg (join (ascii '', '')
                        (errors (Expense_validate r))))), s)"
    if "\<not> isValid (Expense_validate r)"
    using assms that unfolding s1 r_def by (simp add: updateExpense_def Let_def)
  have valid: "updateExpense P now uuid i u s
                  = (case store_updateExpense P now i (Expense_toJSON r) s of
                       (Thrown e, s2) \<Rightarrow> (Returned (failure (Failed ''update expense'' e)), s2)
                     | (Returned b, s2) \<Rightarrow>
                         (Returned \<lparr>success = True,
                                    message = Msg (ascii ''Expense updated successfully''),
                                    payload = Some (Expense_toJSON r)\<rparr>, s2))"
    if "isValid (Expense_validate r)"
    using assms that unfolding s1 r_def by (simp add: updateExpense_def Let_def)
  have kept: "isValid (Expense_validate r)" if "snd (updateExpense P now uuid i u s) \<noteq> s"
    using that invalid by force
  have cat: "updateExpense P now uuid i u s
               = (Returned (failure (Msg (join (ascii '', '')
                    (errors (Transaction_validate r) @ category_errors (u_category u))))), s) \<and>
             category_errors (u_category u)
               \<in> {[ascii ''Category is required''], [ascii ''Category must be a string''],
                  [ascii ''Invalid category. Must be one of: ''
                   @ join (ascii '', '') EXPENSE_CATEGORIES]}"
    if a: "u_category u \<noteq> Undefined \<and> u_category u \<notin> Str ` set EXPENSE_CATEGORIES"
  proof -
    from a have c: "category r = u_category u"
      by (simp add: r_def rebuilt_Expense_def new_Expense_def transaction.extend_def
          expense.fields_def)
    from a have m: "category_errors (u_category u)
               \<in> {[ascii ''Category is required''], [ascii ''Category must be a string''],
                  [ascii ''Invalid category. Must be one of: ''
                   @ join (ascii '', '') EXPENSE_CATEGORIES]}"
      by (intro category_errors_outside) simp
    then have ne: "category_errors (u_category u) \<noteq> []"
      by auto
    have errs: "errors (Expense_validate r)
                  = errors (Transaction_validate r) @ category_errors (u_category u)"
      by (simp add: Expense_validate_def Let_def c)
    with ne have "\<not> isValid (Expense_validate r)"
      by (simp add: Expense_validate_def Let_def c)
    from invalid [OF this] errs m show ?thesis
      by simp
  qed
  show ?thesis
    using cat invalid valid kept s1 again unfolding r_def by blast
qed

theorem updateExpense_rejects_category_outside_enumeration_witness:
  "updateExpense platform_utc 2000 (ascii ''u9'') (ascii ''ab12'') to_gadgets
       (store_with [Rec lunch] [])
     = (Returned (failure (Msg (join (ascii '', '')
          ([] @ [ascii ''Invalid category. Must be one of: ''
                 @ join (ascii '', '') EXPENSE_CATEGORIES])))),
        store_with [Rec lunch] []) \<and>
   updateExpense platform_utc 2000 (ascii ''u9'') (ascii ''ab12'') to_negative
       (store_with [Rec lunch] [])
     = (Returned (failure (Msg (join (ascii '', '')
          [ascii ''Amount must be a positive number'']))),
        store_with [Rec lunch] []) \<and>
   getExpenseById platform_utc 2001 (ascii ''ab12'') (store_with [Rec lunch] [])
     = (Returned (Some lunch), store_with [Rec lunch] [])"
proof -
  have a: "getExpenseById platform_utc 2000 (ascii ''ab12'') (store_with [Rec lunch] [])
             = (Returned (Some lunch), store_with [Rec lunch] [])"
    by (simp add: getExpenseById_def getExpenses_def readData_cases parse_data_def
        store_with_def maxSize_def lunch_def id_is_def strict_eq_def)
  have b: "u_category to_gadgets \<noteq> Undefined \<and>
           u_category to_gadgets \<notin> Str ` set EXPENSE_CATEGORIES"
    by (auto simp: to_gadgets_def EXPENSE_CATEGORIES_def)
  have c: "errors (Transaction_validate
             (rebuilt_Expense platform_utc 2000 (ascii ''u9'') lunch to_gadgets)) = []"
    "category_errors (u_category to_gadgets)
       = [ascii ''Invalid category. Must be one of: '' @ join (ascii '', '') EXPENSE_CATEGORIES]"
    by (simp_all add: rebuilt_Expense_def lunch_def to_gadgets_def platform_utc_def
        construct_defs Transaction_validate_def category_errors_def EXPENSE_CATEGORIES_def
        localDay_def DAY_def)
  have d: "Expense_validate (rebuilt_Expense platform_utc 2000 (ascii ''u9'') lunch to_negative)
           = \<lparr>isValid = False, errors = [ascii ''Amount must be a positive number'']\<rparr>"
    by (simp add: rebuilt_Expense_def lunch_def to_negative_def platform_utc_def construct_defs
        validate_defs localDay_def DAY_def)
  show ?thesis
    using updateExpense_rejects_category_outside_enumeration
            [OF a, where u = to_gadgets and uuid = "ascii ''u9''" and now' = 2001]
          updateExpense_rejects_category_outside_enumeration
            [OF a, where u = to_negative and uuid = "ascii ''u9''" and now' = 2001]
          b c d
    by simp
qed

subsection \<open>Updates\<close>

lemmas store_read_defs =
  getExpenseById_def getExpenses_def getIncome_def readData_cases parse_data_def maxSize_def
  id_is_def

lemmas store_write_defs =
  writeData_def document_json_def rotateBackups_def delete_old_def newest_first_def
  json_item_def

text \<open>
  C5 (the code departs from the claim). The claim: a successful update keeps every
  field absent from \<open>updates\<close>, the creation timestamp \<open>createdAt\<close> included.
  \<open>updateExpense\<close> builds the new value with the constructor, which stamps
  \<open>createdAt\<close> with the clock, and never copies the stored timestamp (as \<open>fromJSON\<close>
  does): an Expense created at instant 1000 and updated at instant 2000 with only a
  new description is stored with \<open>createdAt\<close> 2000. The date is rebuilt as well,
  through \<open>new Date(expense.date)\<close> and the local-time getters: in a zone west of
  UTC the stored date moves one day back.
\<close>

theorem updateExpense_resets_createdAt:
  "j_createdAt lunch = Some 1000 \<and>
   fst (updateExpense platform_utc 2000 (ascii ''u9'') (ascii ''ab12'') new_description
          (store_with [Rec lunch] []))
     = Returned \<lparr>success = True, message = Msg (ascii ''Expense updated successfully''),
         payload = Some (lunch\<lparr>j_description := Str (ascii ''dinner''),
                                j_createdAt := Some 2000\<rparr>)\<rparr> \<and>
   fst (getExpenseById platform_utc 2001 (ascii ''ab12'')
          (snd (updateExpense platform_utc 2000 (ascii ''u9'') (ascii ''ab12'') new_description
                  (store_with [Rec lunch] []))))
     = Returned (Some (lunch\<lparr>j_description := Str (ascii ''dinner''),
                              j_createdAt := Some 2000\<rparr>)) \<and>
   j_date lunch = Some (Iso 19723) \<and>
   fst (updateExpense platform_new_york 2000 (ascii ''u9'') (ascii ''ab12'') new_description
          (store_with [Rec lunch] []))
     = Returned \<lparr>success = True, message = Msg (ascii ''Expense updated successfully''),
         payload = Some (lunch\<lparr>j_description := Str (ascii ''dinner''),
                                j_createdAt := Some 2000, j_date := Some (Iso 19722)\<rparr>)\<rparr>"
  by (simp add: updateExpense_def rebuilt_Expense_def store_updateExpense_def store_read_defs
      store_write_defs store_with_def lunch_def new_description_def platform_utc_def
      platform_new_york_def sample_byteLength_def construct_defs validate_defs
      Expense_toJSON_def strict_eq_def localDay_def DAY_def)

text \<open>
  What a successful \<open>updateExpense\<close> does keep: the new record carries the stored
  amount, category, description and currency where \<open>updates\<close> has none (a missing
  description and a falsy currency taking their defaults), and the stored identifier;
  the date, when \<open>updates\<close> has none, is kept if local time is not behind UTC and it
  is stored in canonical form. \<open>createdAt\<close> is the clock of the update.
\<close>

lemma updateExpense_carries_over:
  assumes "updateExpense P now uuid i u s = (Returned r, s')" "success r"
  shows "\<exists>old new.
           getExpenseById P now i s = (Returned (Some old), s) \<and> payload r = Some new \<and>
           j_createdAt new = Some now \<and>
           (u_amount u = Undefined \<longrightarrow> j_amount new = j_amount old) \<and>
           (u_category u = Undefined \<longrightarrow> j_category new = j_category old) \<and>
           (u_description u = Undefined
              \<longrightarrow> j_description new = default_param (Str []) (j_description old)) \<and>
           (u_currency u = Undefined
              \<longrightarrow> j_currency new = or_else (j_currency old) (Str (ascii ''$''))) \<and>
           (i \<noteq> [] \<longrightarrow> j_id new = j_id old) \<and>
           (u_date u = DUndefined \<and> 0 \<le> zone P \<and> zone P < DAY \<and> canonical old
              \<longrightarrow> j_date new = j_date old) \<and>
           (u_date u = DUndefined \<and> - DAY \<le> zone P \<and> zone P < 0 \<and> canonical old
              \<longrightarrow> j_date new = Some (Iso (day_of old - 1)))"
proof -
  from assms obtain old s1 where
    old: "getExpenseById P now i s = (Returned (Some old), s1)"
    by (auto simp: updateExpense_def failure_def split: prod.splits result.splits option.splits)
  then have s1: "s1 = s" and ident: "j_id old = Str i"
    using getExpenseById_SomeD by blast+
  define new where "new = Expense_toJSON (rebuilt_Expense P now uuid old u)"
  from assms old have p: "payload r = Some new"
    by (auto simp: updateExpense_def failure_def Let_def new_def
        split: prod.splits result.splits if_splits)
  have cur: "default_param (Str (ascii ''$'')) (or_else v (Str (ascii ''$'')))
               = or_else v (Str (ascii ''$''))" for v
    by (cases v) (auto simp: default_param_def or_else_def)
  have split: "(n * DAY + zone P) div DAY = n + zone P div DAY" for n
    by (simp add: DAY_def)
  have day: "zone P div DAY = 0" if "0 \<le> zone P" "zone P < DAY"
    using that by (intro div_pos_pos_trivial)
  have day': "zone P div DAY = - 1" if "- DAY \<le> zone P" "zone P < 0"
  proof -
    have "(zone P + DAY) div DAY = zone P div DAY + 1"
      by (simp add: DAY_def)
    moreover have "(zone P + DAY) div DAY = 0"
      using that by (intro div_pos_pos_trivial) simp_all
    ultimately show ?thesis by simp
  qed
  have date: "j_date new = Some (Iso (day_of old + zone P div DAY))"
    if "u_date u = DUndefined" "canonical old"
  proof -
    from that(2) obtain n where n: "j_date old = Some (Iso n)" "day_of old = n"
      by (auto simp: canonical_def day_of_def split: option.splits datetext.splits)
    with that(1) show ?thesis
      by (simp add: new_def rebuilt_Expense_def Expense_toJSON_def new_Expense_def
          new_Transaction_def transaction.extend_def expense.fields_def localDay_def split)
  qed
  have kept: "j_date new = j_date old"
    if "u_date u = DUndefined" "canonical old" "0 \<le> zone P" "zone P < DAY"
  proof -
    from that(2) obtain n where n: "j_date old = Some (Iso n)" "day_of old = n"
      by (auto simp: canonical_def day_of_def split: option.splits datetext.splits)
    with date [OF that(1,2)] day [OF that(3,4)] show ?thesis
      by simp
  qed
  have "j_createdAt new = Some now"
    "u_amount u = Undefined \<longrightarrow> j_amount new = j_amount old"
    "u_category u = Undefined \<longrightarrow> j_category new = j_category old"
    "u_description u = Undefined \<longrightarrow> j_description new = default_param (Str []) (j_description old)"
    "u_currency u = Undefined \<longrightarrow> j_currency new = or_else (j_currency old) (Str (ascii ''$''))"
    "i \<noteq> [] \<longrightarrow> j_id new = j_id old"
    by (auto simp: new_def rebuilt_Expense_def Expense_toJSON_def new_Expense_def
        new_Transaction_def transaction.extend_def expense.fields_def cur ident or_else_def
        default_param_def)
  moreover have "u_date u = DUndefined \<and> 0 \<le> zone P \<and> zone P < DAY \<and> canonical old
       \<longrightarrow> j_date new = j_date old"
    using kept by blast
  moreover have "u_date u = DUndefined \<and> - DAY \<le> zone P \<and> zone P < 0 \<and> canonical old
       \<longrightarrow> j_date new = Some (Iso (day_of old - 1))"
    using date day' by auto
  ultimately
  show ?thesis using old p unfolding s1 by blast
qed

subsection \<open>Filtering and sorting\<close>

lemma localDay_midnight_utc: "localDay z (n * DAY) = n + z div DAY"
  by (simp add: localDay_def DAY_def)

lemma setHours0_less: "setHours0 z (n * DAY) < setHours0 z (a * DAY) \<longleftrightarrow> n < a"
  by (simp add: setHours0_def localDay_midnight_utc) (simp add: DAY_def)

lemma isDateInRange_text_bounds:
  "isDateInRange z (DText (Iso n)) (text_bound lo) (text_bound hi) = in_calendar_range n lo hi"
  by (cases lo; cases hi)
     (auto simp: isDateInRange_def bound_instant_def text_bound_def in_calendar_range_def
        setHours0_less Let_def)

lemma mset_insert_by_date: "mset (insert_by_date x ys) = add_mset x (mset ys)"
  by (induction ys) auto

lemma mset_sort_by_date: "mset (sort_by_date xs) = mset xs"
  by (induction xs) (auto simp: sort_by_date_def mset_insert_by_date)

lemma compare_dates_canonical:
  "canonical a \<Longrightarrow> canonical b \<Longrightarrow> compare_dates a b = (day_of b - day_of a) * DAY"
  by (auto simp: compare_dates_def canonical_def day_of_def algebra_simps
      split: datetext.splits option.splits)

lemma compare_dates_le:
  "canonical a \<Longrightarrow> canonical b \<Longrightarrow> compare_dates a b \<le> 0 \<longleftrightarrow> day_of b \<le> day_of a"
  by (simp add: compare_dates_canonical) (simp add: DAY_def mult_le_0_iff)

lemma set_insert_by_date: "set (insert_by_date x ys) = insert x (set ys)"
  by (induction ys) auto

lemma sorted_insert_by_date:
  assumes "canonical x" "list_all canonical ys"
    "sorted_wrt (\<lambda>a b. day_of b \<le> day_of a) ys"
  shows "sorted_wrt (\<lambda>a b. day_of b \<le> day_of a) (insert_by_date x ys)"
  using assms
proof (induction ys)
  case Nil
  then show ?case by simp
next
  case (Cons y ys)
  show ?case
  proof (cases "compare_dates x y \<le> 0")
    case True
    with Cons.prems have "day_of y \<le> day_of x"
      by (simp add: compare_dates_le)
    with Cons.prems True show ?thesis
      by (fastforce)
  next
    case False
    with Cons.prems have "day_of x \<le> day_of y"
      by (simp add: compare_dates_le)
    with Cons False show ?thesis
      by (auto simp: set_insert_by_date)
  qed
qed

lemma list_all_insert_by_date:
  "list_all P (insert_by_date x ys) = (P x \<and> list_all P ys)"
  by (induction ys) auto

lemma sorted_sort_by_date:
  "list_all canonical xs \<Longrightarrow> sorted_wrt (\<lambda>a b. day_of b \<le> day_of a) (sort_by_date xs) \<and> list_all canonical (sort_by_date xs)"
proof (induction xs)
  case Nil
  then show ?case by (simp add: sort_by_date_def)
next
  case (Cons x xs)
  then have "canonical x" "list_all canonical (sort_by_date xs)"
    "sorted_wrt (\<lambda>a b. day_of b \<le> day_of a) (sort_by_date xs)"
    by simp_all
  then show ?case
    using sorted_insert_by_date [of x "sort_by_date xs"]
    by (simp add: sort_by_date_def list_all_insert_by_date)
qed

lemma strict_eq_Str [simp]: "strict_eq a (Str s) = (a = Str s)"
  by (auto simp: strict_eq_def)

lemma strict_eq_truthy: "truthy b \<Longrightarrow> strict_eq a b = (a = b)"
  by (auto simp: strict_eq_def)

lemma filter_dates_text_bounds:
  assumes "list_all canonical ts" "f_startDate f = text_bound lo" "f_endDate f = text_bound hi"
  shows "filter_dates z f ts = filter (\<lambda>t. in_calendar_range (day_of t) lo hi) ts"
proof -
  have range: "isDateInRange z (date_member (j_date t)) (text_bound lo) (text_bound hi)
                 = in_calendar_range (day_of t) lo hi" if "canonical t" for t
    using that isDateInRange_text_bounds [of z _ lo hi]
    by (auto simp: canonical_def day_of_def split: datetext.splits option.splits)
  have none: "in_calendar_range n lo hi"
    if "\<not> bound_truthy (text_bound lo)" "\<not> bound_truthy (text_bound hi)" for n
    using that by (cases lo; cases hi) (auto simp: text_bound_def in_calendar_range_def)
  show ?thesis
  proof (cases "bound_truthy (f_startDate f) \<or> bound_truthy (f_endDate f)")
    case True
    then have "filter_dates z f ts
        = filter (\<lambda>t. isDateInRange z (date_member (j_date t)) (text_bound lo) (text_bound hi)) ts"
      by (simp add: filter_dates_def assms(2,3))
    also have "\<dots> = filter (\<lambda>t. in_calendar_range (day_of t) lo hi) ts"
      using assms(1) by (intro filter_cong) (auto simp: range list_all_iff)
    finally show ?thesis .
  next
    case False
    then show ?thesis
      using none by (simp add: filter_dates_def assms(2,3))
  qed
qed

lemma canonical_retyped [simp]: "canonical (t\<lparr>j_type := v\<rparr>) = canonical t"
  by (simp add: canonical_def)

lemma canonical_tagged:
  "list_all canonical (tagged es is) = list_all (\<lambda>e. canonical (members e)) (es @ is)"
  by (simp add: tagged_def list.pred_map comp_def)

lemma canonical_filter_type: "list_all canonical ts \<Longrightarrow> list_all canonical (filter_type f ts)"
  by (simp add: filter_type_def list_all_iff)

lemma select_text_bounds:
  assumes "list_all canonical ts" "f_startDate f = text_bound lo" "f_endDate f = text_bound hi"
  shows "filter_source f (filter_category f (filter_dates z f (filter_type f ts)))
           = filter (matches f lo hi) ts"
proof -
  have "filter_dates z f (filter_type f ts)
          = filter (\<lambda>t. in_calendar_range (day_of t) lo hi) (filter_type f ts)"
    using canonical_filter_type [OF assms(1)] assms(2,3) by (rule filter_dates_text_bounds)
  then show ?thesis
    by (auto simp: filter_source_def filter_category_def filter_type_def matches_def
        strict_eq_truthy intro!: filter_cong)
qed

text \<open>
  With the date bounds given as date texts (as the desktop front end gives them) and the
  stored records objects whose dates are in the canonical form the constructor stores,
  in every zone: \<open>getTransactions\<close> returns the records that pass the type filter, lie
  in the inclusive range of calendar days, and pass the category and the source
  filter, most recent day first.
\<close>

lemma getTransactions_text_bounds:
  assumes "getExpenses P now s = (Returned es, s1)" "getIncome P now s1 = (Returned is, s2)"
    and "list_all (\<lambda>e. canonical (members e)) (es @ is)"
    and "f_startDate f = text_bound lo" "f_endDate f = text_bound hi"
  shows "\<exists>ts. getTransactions P now f s = (Returned ts, s2) \<and>
              mset ts = mset (filter (matches f lo hi) (tagged es is)) \<and>
              sorted_wrt (\<lambda>a b. day_of b \<le> day_of a) ts"
proof -
  have c: "list_all canonical (tagged es is)"
    using assms(3) by (simp add: canonical_tagged)
  have sel: "filter_source f (filter_category f (filter_dates (zone P) f (filter_type f (tagged es is))))
           = filter (matches f lo hi) (tagged es is)"
    using c assms(4,5) by (rule select_text_bounds)
  have "list_all canonical (filter (matches f lo hi) (tagged es is))"
    using c by (simp add: list_all_iff)
  from sorted_sort_by_date [OF this]
  show ?thesis
    by (simp add: getTransactions_def assms(1,2) sel mset_sort_by_date)
qed

text \<open>
  C2 (the code departs from the claim). The claim: the date bounds are an inclusive
  range of calendar dates, for every filters object. With a bound given as a Date
  object at local midnight (what the command-line front end passes, from
  \<open>validateDate\<close>) in a zone west of UTC, a record dated on the start day is left
  out: the record's date text is read as midnight UTC, which is the evening before in
  local time, and \<open>setHours(0, 0, 0, 0)\<close> moves it to the local midnight of the day
  before. Here the zone is UTC-5, the record is dated 2024-01-01 (day 19723) and the
  start bound is local midnight of 2024-01-01.
\<close>

theorem getTransactions_excludes_start_day:
  "j_date lunch = Some (Iso 19723) \<and>
   f_startDate from_new_year = DObj (Some 1704085200000) \<and>
   localDay (zone platform_new_york) 1704085200000 = 19723 \<and>
   setHours0 (zone platform_new_york) 1704085200000 = 1704085200000 \<and>
   getTransactions platform_new_york 5 from_new_year (store_with [Rec lunch] [])
     = (Returned [], store_with [Rec lunch] []) \<and>
   getTransactions platform_new_york 5 no_filters (store_with [Rec lunch] [])
     = (Returned [lunch], store_with [Rec lunch] [])"
  by (simp add: getTransactions_def getExpenses_def getIncome_def readData_cases parse_data_def
      maxSize_def store_with_def lunch_def from_new_year_def
      no_filters_def platform_new_york_def tagged_def filter_type_def filter_dates_def
      filter_category_def filter_source_def sort_by_date_def strict_eq_def isDateInRange_def
      bound_instant_def setHours0_def localDay_def DAY_def)

end
